theory Spec2Isabelle
  imports Main "HOL-Library.Word"
begin

unbundle bit_operations_syntax

section \<open>BLE gateway access points: data model\<close>

text \<open>
  The gateway's access points (\<^verbatim>\<open>gateway/access_point.py\<close>, the mock backend in
  \<^verbatim>\<open>gateway/mock/mock_access_point.py\<close> and the radio-chip backend in
  \<^verbatim>\<open>gateway/silabs/silabs_access_point.py\<close> with its operations under
  \<^verbatim>\<open>gateway/silabs/ble_operations/\<close>) are embedded as functions on explicit state.
  Python exceptions are values of type \<open>error\<close>; a Python \<^verbatim>\<open>dict\<close> is an association
  list in insertion order; Python integers are \<open>int\<close>; \<^verbatim>\<open>bytes\<close> are lists of 8-bit words.
\<close>

subsection \<open>Exceptions\<close>

text \<open>
  The seven error classes of \<^verbatim>\<open>access_point_responses.py\<close>, each carrying its message,
  and the built-in exceptions that the modelled code can raise.
\<close>

datatype error =
    BleConnectionError string
  | BleDiscoveryError string
  | BleReadError string
  | BleWriteError string
  | BleSubscribeError string
  | BleUnsubscribeError string
  | BleDisconnectError string
  | KeyError string
  | AttributeError string
  | RuntimeError string

subsection \<open>Python dictionaries\<close>

type_synonym ('k, 'v) dict = "('k \<times> 'v) list"

definition dict_contains :: "('k, 'v) dict \<Rightarrow> 'k \<Rightarrow> bool" where
  "dict_contains d k = (map_of d k \<noteq> None)"

definition dict_get :: "('k, 'v) dict \<Rightarrow> 'k \<Rightarrow> 'v option" where
  "dict_get d k = map_of d k"

text \<open>\<^verbatim>\<open>d[k] = v\<close>: an existing key keeps its position, a new key goes to the end.\<close>

fun dict_set :: "('k, 'v) dict \<Rightarrow> 'k \<Rightarrow> 'v \<Rightarrow> ('k, 'v) dict" where
  "dict_set [] k v = [(k, v)]"
| "dict_set ((k', v') # d) k v =
     (if k' = k then (k, v) # d else (k', v') # dict_set d k v)"

definition dict_pop :: "('k, 'v) dict \<Rightarrow> 'k \<Rightarrow> ('k, 'v) dict" where
  "dict_pop d k = filter (\<lambda>kv. fst kv \<noteq> k) d"

definition dict_values :: "('k, 'v) dict \<Rightarrow> 'v list" where
  "dict_values d = map snd d"

subsection \<open>Bytes and their renderings\<close>

type_synonym bytes = "8 word list"

definition hex_digit :: "nat \<Rightarrow> char" where
  "hex_digit n = ''0123456789abcdef'' ! n"

text \<open>\<^verbatim>\<open>bytes.hex()\<close>: two lower-case hexadecimal digits per byte.\<close>

definition bytes_hex :: "bytes \<Rightarrow> string" where
  "bytes_hex bs =
     concat (map (\<lambda>b. [hex_digit (unat b div 16), hex_digit (unat b mod 16)]) bs)"

text \<open>\<^verbatim>\<open>evt.uuid[::-1].hex()\<close>, the identifier the discovery callbacks compute.\<close>

definition uuid_id :: "bytes \<Rightarrow> string" where
  "uuid_id uuid = bytes_hex (rev uuid)"

text \<open>\<^verbatim>\<open>str(n)\<close> for a Python integer: decimal digits, a minus sign when negative.\<close>

fun str_nat :: "nat \<Rightarrow> string" where
  "str_nat n =
     (if n < 10 then [''0123456789'' ! n]
      else str_nat (n div 10) @ [''0123456789'' ! (n mod 10)])"

declare str_nat.simps [simp del]

definition str_int :: "int \<Rightarrow> string" where
  "str_int i = (if i < 0 then CHR ''-'' # str_nat (nat (- i)) else str_nat (nat i))"

subsection \<open>Services, characteristics, descriptors (\<^verbatim>\<open>ble_types.py\<close>)\<close>

record descriptor =
  descriptor_id :: string
  desc_handle :: int

record characteristic =
  characteristic_id :: string
  char_handle :: int
  properties :: "string list"
  descriptors :: "(string, descriptor) dict"

record service =
  service_id :: string
  service_handle :: int
  characteristics :: "(string, characteristic) dict"

text \<open>
  \<^verbatim>\<open>Characteristic.__init__\<close>: the property list starts empty and each bit test, in the
  order of the source, appends its flag.
\<close>

definition init_properties :: "int \<Rightarrow> string list" where
  "init_properties props =
     (let ps0 = [];
          ps1 = (if props AND 0x02 = 0x02 then ps0 @ [''read''] else ps0);
          ps2 = (if props AND 0x04 = 0x04 then ps1 @ [''write_no_response''] else ps1);
          ps3 = (if props AND 0x08 = 0x08 then ps2 @ [''write''] else ps2);
          ps4 = (if props AND 0x10 = 0x10 then ps3 @ [''notify''] else ps3);
          ps5 = (if props AND 0x20 = 0x20 then ps4 @ [''indicate''] else ps4);
          ps6 = (if props AND 0x80 = 0x80 then ps5 @ [''extended_props''] else ps5);
          ps7 = (if props AND 0x101 = 0x101 then ps6 @ [''reliable_write''] else ps6)
      in ps7)"

definition Characteristic :: "string \<Rightarrow> int \<Rightarrow> int \<Rightarrow> characteristic" where
  "Characteristic cid h props =
     \<lparr>characteristic_id = cid, char_handle = h,
      properties = init_properties props, descriptors = []\<rparr>"

text \<open>The order in which the specification lists the capability flags.\<close>

definition flag_order :: "string list" where
  "flag_order = [''read'', ''write_no_response'', ''write'', ''notify'', ''indicate'',
                 ''extended_props'', ''reliable_write'']"

subsection \<open>The connection registry (\<^verbatim>\<open>access_point.py\<close>)\<close>

record connection_request =
  address :: string
  handle :: int
  services :: "(string, service) dict"

text \<open>
  An entry of \<^verbatim>\<open>BleConnectOptions.services\<close>: the callers in \<^verbatim>\<open>control.py\<close> pass either
  plain service identifiers or dictionaries.
\<close>

datatype service_request = Request_id string | Request_dict "(string, string) dict"

record ble_connect_options =
  requested :: "service_request list"
  cached :: bool
  cache_idle_purge :: int

definition BleConnectOptions :: ble_connect_options where
  "BleConnectOptions = \<lparr>requested = [], cached = False, cache_idle_purge = 3600\<rparr>"

text \<open>The state every access point inherits from \<^verbatim>\<open>AccessPoint\<close>.\<close>

record access_point =
  conn_reqs :: "(string, connection_request) dict"
  ready :: bool

definition get_connection :: "'a access_point_scheme \<Rightarrow> string \<Rightarrow> connection_request option" where
  "get_connection ap addr = dict_get (conn_reqs ap) addr"

subsection \<open>Responses (\<^verbatim>\<open>access_point_responses.py\<close>)\<close>

text \<open>
  The \<^verbatim>\<open>services\<close> field of a \<^verbatim>\<open>DiscoverResponse\<close> receives a list from the mock backend
  and the operation's dictionary from the radio-chip backend.
\<close>

datatype services_payload =
    Service_list "service list"
  | Service_dict "(string, service) dict"

record discover_response =
  dr_address :: string
  dr_services :: services_payload

record read_response =
  rr_address :: string
  rr_service_uuid :: string
  rr_char_uuid :: string
  rr_value :: "bytes option"

record write_response =
  wr_address :: string
  wr_service_uuid :: string
  wr_char_uuid :: string
  wr_value :: "bytes option"
  wr_success :: bool

record subscribe_response =
  sr_address :: string
  sr_service_uuid :: string
  sr_char_uuid :: string
  sr_subscribed :: bool

record unsubscribe_response =
  ur_address :: string
  ur_service_uuid :: string
  ur_char_uuid :: string
  ur_unsubscribed :: bool

section \<open>The mock backend (\<^verbatim>\<open>mock/mock_access_point.py\<close>)\<close>

text \<open>
  Calls on the data producer are recorded in order. The background threads of the mock
  (scan data, subscription data) are represented by their entries in the state only;
  what they publish while running is not part of this model.
\<close>

datatype publication =
    Connection_status int string bool
  | Notification string string string bytes

datatype thread = Thread string string string

record mock_access_point = access_point +
  scanning :: bool
  subscription_threads :: "(string \<times> string \<times> string, thread) dict"
  published :: "publication list"

definition MockAccessPoint :: mock_access_point where
  "MockAccessPoint =
     \<lparr>conn_reqs = [], ready = False, scanning = False, subscription_threads = [],
      published = []\<rparr>"

definition mock_connectable :: "mock_access_point \<Rightarrow> bool" where
  "mock_connectable ap = True"

definition mock_connect ::
  "mock_access_point \<Rightarrow> string \<Rightarrow> ble_connect_options \<Rightarrow> int \<Rightarrow>
   (error + unit) \<times> mock_access_point" where
  "mock_connect ap addr opts retries =
     (if \<not> mock_connectable ap then (Inl (BleConnectionError ''max connections''), ap)
      else if dict_contains (conn_reqs ap) addr
        then (Inl (BleConnectionError ''already connected''), ap)
      else (Inr (),
            ap\<lparr>conn_reqs :=
                  dict_set (conn_reqs ap) addr \<lparr>address = addr, handle = 0, services = []\<rparr>,
               published := published ap @ [Connection_status 0 addr True]\<rparr>))"

definition mock_discover ::
  "mock_access_point \<Rightarrow> string \<Rightarrow> ble_connect_options \<Rightarrow> int \<Rightarrow>
   (error + discover_response) \<times> mock_access_point" where
  "mock_discover ap addr opts retries =
     (if \<not> dict_contains (conn_reqs ap) addr
        then (Inl (BleDiscoveryError ''not connected''), ap)
      else
        let char1 = (Characteristic ''2a37'' 1 0x10)
                      \<lparr>descriptors := dict_set [] ''2902''
                         \<lparr>descriptor_id = ''2902'', desc_handle = 1\<rparr>\<rparr>;
            char2 = Characteristic ''2a38'' 2 0x02;
            char3 = Characteristic ''2a39'' 3 0x08;
            svc = \<lparr>service_id = ''180d'', service_handle = 1,
                   characteristics =
                     [(''2a37'', char1), (''2a38'', char2), (''2a39'', char3)]\<rparr>
        in (Inr \<lparr>dr_address = addr, dr_services = Service_list [svc]\<rparr>, ap))"

definition mock_read ::
  "mock_access_point \<Rightarrow> string \<Rightarrow> string \<Rightarrow> string \<Rightarrow>
   (error + read_response) \<times> mock_access_point" where
  "mock_read ap addr service_uuid char_uuid =
     (if \<not> dict_contains (conn_reqs ap) addr
        then (Inl (BleReadError ''not connected''), ap)
      else if service_uuid \<noteq> ''180d'' \<or> char_uuid \<noteq> ''2a38''
        then (Inl (BleReadError ''Invalid service or characteristic uuid''), ap)
      else (Inr \<lparr>rr_address = addr, rr_service_uuid = service_uuid,
                 rr_char_uuid = char_uuid, rr_value = Some [0x74, 0x65, 0x73, 0x74]\<rparr>, ap))"

definition mock_write ::
  "mock_access_point \<Rightarrow> string \<Rightarrow> string \<Rightarrow> string \<Rightarrow> bytes \<Rightarrow>
   (error + write_response) \<times> mock_access_point" where
  "mock_write ap addr service_uuid char_uuid val =
     (if \<not> dict_contains (conn_reqs ap) addr
        then (Inl (BleWriteError ''not connected''), ap)
      else (Inr \<lparr>wr_address = addr, wr_service_uuid = service_uuid,
                 wr_char_uuid = char_uuid, wr_value = Some val, wr_success = True\<rparr>, ap))"

definition mock_subscribe ::
  "mock_access_point \<Rightarrow> string \<Rightarrow> string \<Rightarrow> string \<Rightarrow>
   (error + subscribe_response) \<times> mock_access_point" where
  "mock_subscribe ap addr service_uuid char_uuid =
     (if \<not> dict_contains (conn_reqs ap) addr
        then (Inl (BleSubscribeError ''not connected''), ap)
      else
        let key = (addr, service_uuid, char_uuid) in
        if dict_contains (subscription_threads ap) key
          then (Inl (BleSubscribeError ''already subscribed''), ap)
        else (Inr \<lparr>sr_address = addr, sr_service_uuid = service_uuid,
                   sr_char_uuid = char_uuid, sr_subscribed = True\<rparr>,
              ap\<lparr>subscription_threads :=
                    dict_set (subscription_threads ap) key
                      (Thread addr service_uuid char_uuid)\<rparr>))"

definition mock_unsubscribe ::
  "mock_access_point \<Rightarrow> string \<Rightarrow> string \<Rightarrow> string \<Rightarrow>
   (error + unsubscribe_response) \<times> mock_access_point" where
  "mock_unsubscribe ap addr service_uuid char_uuid =
     (let key = (addr, service_uuid, char_uuid) in
      if \<not> dict_contains (subscription_threads ap) key
        then (Inl (BleSubscribeError ''not subscribed''), ap)
      else (Inr \<lparr>ur_address = addr, ur_service_uuid = service_uuid,
                 ur_char_uuid = char_uuid, ur_unsubscribed = True\<rparr>,
            ap\<lparr>subscription_threads := dict_pop (subscription_threads ap) key\<rparr>))"

definition mock_disconnect ::
  "mock_access_point \<Rightarrow> string \<Rightarrow> (error + unit) \<times> mock_access_point" where
  "mock_disconnect ap addr =
     (if \<not> dict_contains (conn_reqs ap) addr
        then (Inl (BleDisconnectError ''not connected''), ap)
      else (Inr (),
            ap\<lparr>conn_reqs := dict_pop (conn_reqs ap) addr,
               published := published ap @ [Connection_status 1 addr False]\<rparr>))"

section \<open>The radio-chip backend (\<^verbatim>\<open>silabs/silabs_access_point.py\<close>)\<close>

text \<open>
  The caller's thread issues a backend command and blocks in \<^verbatim>\<open>wait()\<close>; the backend's
  thread hands every event to \<^verbatim>\<open>event_handler\<close>, one at a time in delivery order. The
  model is sequential: an access-point call receives the list of events the backend
  delivers from the moment the call starts, each \<^verbatim>\<open>wait()\<close> consumes events through
  \<^verbatim>\<open>event_handler\<close> until the waiting operation is signalled, and the call returns the
  events it did not consume. A \<^verbatim>\<open>wait()\<close> that is never signalled blocks for ever
  (the source passes no timeout): outcome \<open>Blocks\<close>.
\<close>

subsection \<open>Events, commands, operations\<close>

text \<open>
  The backend events the access point and its operations react to, with the attributes
  they read, and the connection-opened event; every other event is \<open>bt_evt_other\<close> with
  its name.
\<close>

datatype event =
    bt_evt_system_boot
  | bt_evt_connection_opened string int
  | bt_evt_connection_closed int int
  | bt_evt_gatt_service int bytes int
  | bt_evt_gatt_characteristic int bytes int int
  | bt_evt_gatt_descriptor int bytes int
  | bt_evt_gatt_procedure_completed int int
  | bt_evt_gatt_characteristic_value int int int bytes
  | bt_evt_other string

text \<open>
  Four operation classes are imported by the access point from modules whose source is
  not available (\<^verbatim>\<open>scan\<close>, \<^verbatim>\<open>connect\<close>, \<^verbatim>\<open>disconnect\<close>, \<^verbatim>\<open>subscribe\<close>). Their
  constructors, event callbacks and \<^verbatim>\<open>disable_notification\<close> are parameters of the model
  (record \<open>environment\<close>); of their objects the model keeps what the access point reads:
  the attributes \<^verbatim>\<open>handle\<close> and \<^verbatim>\<open>char_handle\<close> (\<open>None\<close>: the object has no such
  attribute), the event flag, \<^verbatim>\<open>is_done\<close>, and an opaque internal state.
\<close>

datatype missing_class = ScanOperation | ConnectOperation | DisconnectOperation | SubscribeOperation

datatype argument = Arg_int int | Arg_str string | Arg_list "string list"

datatype command =
    discover_primary_services int
  | discover_characteristics int int
  | discover_descriptors int int
  | read_characteristic_value int int
  | write_characteristic_value int int bytes
  | Missing_call missing_class string

record read_operation =
  ro_handle :: int
  ro_char_handle :: int
  ro_value :: "bytes option"
  ro_flag :: bool
  ro_is_done :: bool

record write_operation =
  wo_handle :: int
  wo_char_handle :: int
  wo_value_bytes :: bytes
  wo_flag :: bool
  wo_is_done :: bool

text \<open>
  A \<^verbatim>\<open>DiscoverOperation\<close> creates \<^verbatim>\<open>Service\<close> and \<^verbatim>\<open>Characteristic\<close> objects and mutates
  them through \<^verbatim>\<open>current_service\<close> and \<^verbatim>\<open>current_characteristic\<close> while they sit in its
  dictionaries. The operation therefore holds its objects in two stores, a reference being
  a position; dictionaries hold references. \<open>do_current_service = None\<close> is the attribute
  not assigned yet; \<open>do_pulses\<close> counts the \<^verbatim>\<open>set(); clear()\<close> pairs.
\<close>

record service_object =
  so_service_id :: string
  so_service_handle :: int
  so_characteristics :: "(string, nat) dict"

record discover_operation =
  do_handle :: int
  do_requested_services :: "service_request list"
  do_retries :: int
  do_services :: "(string, nat) dict"
  do_service_objects :: "service_object list"
  do_characteristic_objects :: "characteristic list"
  do_current_service :: "nat option"
  do_current_characteristic :: "nat option"
  do_result :: "int option"
  do_pulses :: nat
  do_is_done :: bool

record missing_operation =
  mo_class :: missing_class
  mo_handle :: "int option"
  mo_char_handle :: "int option"
  mo_flag :: bool
  mo_is_done :: bool
  mo_internal :: nat

datatype operation =
    Read read_operation
  | Write write_operation
  | Discover discover_operation
  | Missing missing_operation

record environment =
  SL_BT_CONFIG_MAX_CONNECTIONS :: int
  ATT_OPCODE_READ_RESPONSE :: int
  missing_init :: "missing_class \<Rightarrow> argument list \<Rightarrow> missing_operation"
  missing_handle_event :: "missing_operation \<Rightarrow> event \<Rightarrow> missing_operation"
  missing_disable_notification :: "missing_operation \<Rightarrow> missing_operation"

text \<open>
  The access point: \<^verbatim>\<open>operations\<close> is the list of pending operations (references into
  \<open>objects\<close>, the store of every operation object created so far, so that a caller still
  reads its operation after \<^verbatim>\<open>event_handler\<close> has removed it from the list);
  \<open>issued\<close> records the backend commands in the order they were issued.
\<close>

record silabs_access_point = access_point +
  operations :: "nat list"
  objects :: "operation list"
  issued :: "command list"

definition SilabsAccessPoint :: silabs_access_point where
  "SilabsAccessPoint = \<lparr>conn_reqs = [], ready = False, operations = [], objects = [], issued = []\<rparr>"

definition op_is_done :: "operation \<Rightarrow> bool" where
  "op_is_done op = (case op of Read x \<Rightarrow> ro_is_done x | Write x \<Rightarrow> wo_is_done x
                    | Discover x \<Rightarrow> do_is_done x | Missing x \<Rightarrow> mo_is_done x)"

definition op_is_set :: "operation \<Rightarrow> bool" where
  "op_is_set op = (case op of Read x \<Rightarrow> ro_flag x | Write x \<Rightarrow> wo_flag x
                   | Discover x \<Rightarrow> False | Missing x \<Rightarrow> mo_flag x)"

definition op_pulses :: "operation \<Rightarrow> nat" where
  "op_pulses op = (case op of Discover x \<Rightarrow> do_pulses x | _ \<Rightarrow> 0)"

definition op_handle :: "operation \<Rightarrow> int option" where
  "op_handle op = (case op of Read x \<Rightarrow> Some (ro_handle x) | Write x \<Rightarrow> Some (wo_handle x)
                   | Discover x \<Rightarrow> Some (do_handle x) | Missing x \<Rightarrow> mo_handle x)"

definition op_char_handle :: "operation \<Rightarrow> int option" where
  "op_char_handle op =
     (case op of Read x \<Rightarrow> Some (ro_char_handle x) | Write x \<Rightarrow> Some (wo_char_handle x)
      | Discover x \<Rightarrow> None | Missing x \<Rightarrow> mo_char_handle x)"

definition is_SubscribeOperation :: "operation \<Rightarrow> bool" where
  "is_SubscribeOperation op =
     (case op of Missing x \<Rightarrow> mo_class x = SubscribeOperation | _ \<Rightarrow> False)"

subsection \<open>Event callbacks of the operations\<close>

fun ReadOperation_handle_event ::
  "environment \<Rightarrow> read_operation \<Rightarrow> event \<Rightarrow> read_operation" where
  "ReadOperation_handle_event env op (bt_evt_gatt_characteristic_value conn ch opcode v) =
     (if ro_handle op = conn \<and> ro_char_handle op = ch \<and> opcode = ATT_OPCODE_READ_RESPONSE env
      then op\<lparr>ro_value := Some v, ro_flag := True\<rparr> else op)"
| "ReadOperation_handle_event env op (bt_evt_gatt_procedure_completed conn res) =
     (if ro_handle op = conn then op\<lparr>ro_is_done := True\<rparr> else op)"
| "ReadOperation_handle_event env op _ = op"

fun WriteOperation_handle_event :: "write_operation \<Rightarrow> event \<Rightarrow> write_operation" where
  "WriteOperation_handle_event op (bt_evt_gatt_procedure_completed conn res) =
     (if wo_handle op = conn then op\<lparr>wo_flag := True, wo_is_done := True\<rparr> else op)"
| "WriteOperation_handle_event op _ = op"

fun DiscoverOperation_handle_event ::
  "discover_operation \<Rightarrow> event \<Rightarrow> error + discover_operation" where
  "DiscoverOperation_handle_event op (bt_evt_gatt_service conn uuid svc) =
     (if conn = do_handle op then
        let sid = uuid_id uuid; r = length (do_service_objects op) in
        Inr (op\<lparr>do_service_objects := do_service_objects op @
                  [\<lparr>so_service_id = sid, so_service_handle = svc, so_characteristics = []\<rparr>],
                do_services := dict_set (do_services op) sid r\<rparr>)
      else Inr op)"
| "DiscoverOperation_handle_event op (bt_evt_gatt_characteristic conn uuid ch props) =
     (if conn = do_handle op then
        let cid = uuid_id uuid in
        case do_current_service op of
          None \<Rightarrow> Inl (AttributeError ''current_service'')
        | Some s \<Rightarrow>
            let c = length (do_characteristic_objects op);
                so = do_service_objects op ! s in
            Inr (op\<lparr>do_characteristic_objects :=
                      do_characteristic_objects op @ [Characteristic cid ch props],
                    do_service_objects := (do_service_objects op)
                      [s := so\<lparr>so_characteristics := dict_set (so_characteristics so) cid c\<rparr>]\<rparr>)
      else Inr op)"
| "DiscoverOperation_handle_event op (bt_evt_gatt_descriptor conn uuid d) =
     (if conn = do_handle op then
        let did = uuid_id uuid in
        case do_current_characteristic op of
          None \<Rightarrow> Inl (AttributeError ''current_characteristic'')
        | Some c \<Rightarrow>
            let co = do_characteristic_objects op ! c in
            Inr (op\<lparr>do_characteristic_objects := (do_characteristic_objects op)
                      [c := co\<lparr>descriptors := dict_set (descriptors co) did
                                 \<lparr>descriptor_id = did, desc_handle = d\<rparr>\<rparr>]\<rparr>)
      else Inr op)"
| "DiscoverOperation_handle_event op (bt_evt_gatt_procedure_completed conn res) =
     (if conn = do_handle op
      then Inr (op\<lparr>do_result := Some res, do_pulses := Suc (do_pulses op)\<rparr>)
      else Inr op)"
| "DiscoverOperation_handle_event op _ = Inr op"

text \<open>\<^verbatim>\<open>Operation.handle_event\<close>, by class of the operation.\<close>

definition handle_event :: "environment \<Rightarrow> operation \<Rightarrow> event \<Rightarrow> error + operation" where
  "handle_event env op evt =
     (case op of
        Read x \<Rightarrow> Inr (Read (ReadOperation_handle_event env x evt))
      | Write x \<Rightarrow> Inr (Write (WriteOperation_handle_event x evt))
      | Discover x \<Rightarrow>
          (case DiscoverOperation_handle_event x evt of
             Inl err \<Rightarrow> Inl err | Inr x' \<Rightarrow> Inr (Discover x'))
      | Missing x \<Rightarrow> Inr (Missing ((missing_handle_event env x evt)\<lparr>mo_class := mo_class x\<rparr>)))"

subsection \<open>The event dispatcher\<close>

text \<open>
  The first loop of \<^verbatim>\<open>event_handler\<close>: every pending operation is offered the event,
  and those now done are collected. An exception raised by a callback leaves the loop.
\<close>

fun offer ::
  "environment \<Rightarrow> event \<Rightarrow> nat list \<Rightarrow> operation list \<Rightarrow> nat list \<Rightarrow>
   error + (operation list \<times> nat list)" where
  "offer env evt [] objs remove_ops = Inr (objs, remove_ops)"
| "offer env evt (r # rs) objs remove_ops =
     (case handle_event env (objs ! r) evt of
        Inl err \<Rightarrow> Inl err
      | Inr op' \<Rightarrow>
          offer env evt rs (objs[r := op'])
            (if op_is_done op' then remove_ops @ [r] else remove_ops))"

definition bt_evt_system_boot_callback :: "silabs_access_point \<Rightarrow> silabs_access_point" where
  "bt_evt_system_boot_callback ap = ap\<lparr>ready := True\<rparr>"

text \<open>
  \<^verbatim>\<open>bt_evt_connection_closed\<close>: the first registry entry whose handle is the event's
  connection is popped, and the loop is left.
\<close>

definition bt_evt_connection_closed_callback ::
  "silabs_access_point \<Rightarrow> int \<Rightarrow> silabs_access_point" where
  "bt_evt_connection_closed_callback ap conn =
     (case find (\<lambda>kv. handle (snd kv) = conn) (conn_reqs ap) of
        None \<Rightarrow> ap
      | Some kv \<Rightarrow> ap\<lparr>conn_reqs := dict_pop (conn_reqs ap) (fst kv)\<rparr>)"

definition event_callback :: "silabs_access_point \<Rightarrow> event \<Rightarrow> silabs_access_point" where
  "event_callback ap evt =
     (case evt of
        bt_evt_system_boot \<Rightarrow> bt_evt_system_boot_callback ap
      | bt_evt_connection_closed conn reason \<Rightarrow> bt_evt_connection_closed_callback ap conn
      | _ \<Rightarrow> ap)"

definition event_handler ::
  "environment \<Rightarrow> silabs_access_point \<Rightarrow> event \<Rightarrow> error + silabs_access_point" where
  "event_handler env ap evt =
     (case offer env evt (operations ap) (objects ap) [] of
        Inl err \<Rightarrow> Inl err
      | Inr (objs, remove_ops) \<Rightarrow>
          Inr (event_callback
                 (ap\<lparr>objects := objs,
                     operations := fold remove1 remove_ops (operations ap)\<rparr>) evt))"

subsection \<open>Waiting\<close>

datatype wait_result =
    Woken silabs_access_point "event list"
  | Blocked silabs_access_point
  | Event_thread_raised error silabs_access_point

text \<open>
  \<^verbatim>\<open>wait()\<close> of the operation at reference \<open>r\<close>: it returns at once when the flag is
  set, and otherwise when an event makes a callback call \<^verbatim>\<open>set()\<close>.
\<close>

fun wait ::
  "environment \<Rightarrow> nat \<Rightarrow> silabs_access_point \<Rightarrow> event list \<Rightarrow> wait_result" where
  "wait env r ap [] = (if op_is_set (objects ap ! r) then Woken ap [] else Blocked ap)"
| "wait env r ap (e # es) =
     (if op_is_set (objects ap ! r) then Woken ap (e # es)
      else case event_handler env ap e of
        Inl err \<Rightarrow> Event_thread_raised err ap
      | Inr ap' \<Rightarrow>
          if op_is_set (objects ap' ! r) \<or> op_pulses (objects ap ! r) < op_pulses (objects ap' ! r)
          then Woken ap' es else wait env r ap' es)"

datatype 'a outcome = Returns 'a | Raises error | Blocks | Event_thread_raises error

text \<open>Creating an operation object and appending it to \<^verbatim>\<open>self.operations\<close>.\<close>

definition append_operation ::
  "operation \<Rightarrow> silabs_access_point \<Rightarrow> nat \<times> silabs_access_point" where
  "append_operation op ap =
     (length (objects ap),
      ap\<lparr>objects := objects ap @ [op], operations := operations ap @ [length (objects ap)]\<rparr>)"

definition issue :: "command \<Rightarrow> silabs_access_point \<Rightarrow> silabs_access_point" where
  "issue cmd ap = ap\<lparr>issued := issued ap @ [cmd]\<rparr>"

subsection \<open>Reading and writing a characteristic\<close>

definition ReadOperation :: "int \<Rightarrow> int \<Rightarrow> read_operation" where
  "ReadOperation h ch =
     \<lparr>ro_handle = h, ro_char_handle = ch, ro_value = None, ro_flag = False, ro_is_done = False\<rparr>"

definition ReadOperation_response :: "read_operation \<Rightarrow> read_response" where
  "ReadOperation_response op =
     (if ro_flag op
      then \<lparr>rr_address = str_int (ro_handle op), rr_service_uuid = [], rr_char_uuid = [],
            rr_value = ro_value op\<rparr>
      else \<lparr>rr_address = str_int (ro_handle op), rr_service_uuid = [], rr_char_uuid = [],
            rr_value = None\<rparr>)"

text \<open>\<^verbatim>\<open>operation.response()\<close> as the access point calls it on its read operation.\<close>

definition read_response_at :: "silabs_access_point \<Rightarrow> nat \<Rightarrow> read_response" where
  "read_response_at ap r = (case objects ap ! r of Read x \<Rightarrow> ReadOperation_response x)"

definition silabs_read ::
  "environment \<Rightarrow> silabs_access_point \<Rightarrow> string \<Rightarrow> string \<Rightarrow> string \<Rightarrow> event list \<Rightarrow>
   read_response outcome \<times> silabs_access_point \<times> event list" where
  "silabs_read env ap addr service_uuid char_uuid evs =
     (case dict_get (conn_reqs ap) addr of
        None \<Rightarrow> (Raises (BleReadError ''not connected''), ap, evs)
      | Some conn_req \<Rightarrow>
          (case dict_get (services conn_req) service_uuid of
             None \<Rightarrow> (Raises (KeyError service_uuid), ap, evs)
           | Some svc \<Rightarrow>
               (case dict_get (characteristics svc) char_uuid of
                  None \<Rightarrow> (Raises (KeyError char_uuid), ap, evs)
                | Some chr \<Rightarrow>
                    let (r, ap1) = append_operation
                          (Read (ReadOperation (handle conn_req) (char_handle chr))) ap;
                        ap2 = issue (read_characteristic_value (handle conn_req) (char_handle chr)) ap1
                    in (case wait env r ap2 evs of
                          Blocked ap' \<Rightarrow> (Blocks, ap', [])
                        | Event_thread_raised err ap' \<Rightarrow> (Event_thread_raises err, ap', [])
                        | Woken ap' rest \<Rightarrow> (Returns (read_response_at ap' r), ap', rest)))))"

definition WriteOperation :: "int \<Rightarrow> int \<Rightarrow> bytes \<Rightarrow> write_operation" where
  "WriteOperation h ch val =
     \<lparr>wo_handle = h, wo_char_handle = ch, wo_value_bytes = val, wo_flag = False,
      wo_is_done = False\<rparr>"

definition WriteOperation_response :: "write_operation \<Rightarrow> write_response" where
  "WriteOperation_response op =
     (if wo_flag op
      then \<lparr>wr_address = str_int (wo_handle op), wr_service_uuid = [], wr_char_uuid = [],
            wr_value = Some (wo_value_bytes op), wr_success = True\<rparr>
      else \<lparr>wr_address = str_int (wo_handle op), wr_service_uuid = [], wr_char_uuid = [],
            wr_value = None, wr_success = False\<rparr>)"

definition silabs_write ::
  "environment \<Rightarrow> silabs_access_point \<Rightarrow> string \<Rightarrow> string \<Rightarrow> string \<Rightarrow> bytes \<Rightarrow>
   event list \<Rightarrow> write_response outcome \<times> silabs_access_point \<times> event list" where
  "silabs_write env ap addr service_uuid char_uuid val evs =
     (case dict_get (conn_reqs ap) addr of
        None \<Rightarrow> (Raises (BleWriteError ''not connected''), ap, evs)
      | Some conn_req \<Rightarrow>
          (case dict_get (services conn_req) service_uuid of
             None \<Rightarrow> (Raises (KeyError service_uuid), ap, evs)
           | Some svc \<Rightarrow>
               (case dict_get (characteristics svc) char_uuid of
                  None \<Rightarrow> (Raises (KeyError char_uuid), ap, evs)
                | Some chr \<Rightarrow>
                    let (r, ap1) = append_operation
                          (Write (WriteOperation (handle conn_req) (char_handle chr) val)) ap;
                        ap2 = issue (write_characteristic_value (handle conn_req)
                                       (char_handle chr) val) ap1
                    in (case wait env r ap2 evs of
                          Blocked ap' \<Rightarrow> (Blocks, ap', [])
                        | Event_thread_raised err ap' \<Rightarrow> (Event_thread_raises err, ap', [])
                        | Woken ap' rest \<Rightarrow>
                            (Returns \<lparr>wr_address = addr, wr_service_uuid = service_uuid,
                                      wr_char_uuid = char_uuid, wr_value = Some val,
                                      wr_success = True\<rparr>, ap', rest)))))"

subsection \<open>Discovery (\<^verbatim>\<open>ble_operations/discover.py\<close>)\<close>

definition DiscoverOperation :: "int \<Rightarrow> int \<Rightarrow> service_request list \<Rightarrow> discover_operation" where
  "DiscoverOperation h retries svcs =
     \<lparr>do_handle = h, do_requested_services = svcs, do_retries = retries, do_services = [],
      do_service_objects = [], do_characteristic_objects = [], do_current_service = None,
      do_current_characteristic = None, do_result = None, do_pulses = 0, do_is_done = False\<rparr>"

text \<open>The discover operation a running \<^verbatim>\<open>run()\<close> belongs to, and an update of it.\<close>

definition discover_at :: "silabs_access_point \<Rightarrow> nat \<Rightarrow> discover_operation" where
  "discover_at ap r = (case objects ap ! r of Discover x \<Rightarrow> x)"

definition update_discover ::
  "nat \<Rightarrow> (discover_operation \<Rightarrow> discover_operation) \<Rightarrow> silabs_access_point \<Rightarrow>
   silabs_access_point" where
  "update_discover r f ap = ap\<lparr>objects := (objects ap)[r := Discover (f (discover_at ap r))]\<rparr>"

text \<open>The dictionaries of the operation with the references replaced by the objects.\<close>

definition service_value :: "discover_operation \<Rightarrow> service_object \<Rightarrow> service" where
  "service_value op so =
     \<lparr>service_id = so_service_id so, service_handle = so_service_handle so,
      characteristics =
        map (\<lambda>kc. (fst kc, do_characteristic_objects op ! snd kc)) (so_characteristics so)\<rparr>"

definition services_value :: "discover_operation \<Rightarrow> (string, service) dict" where
  "services_value op =
     map (\<lambda>ks. (fst ks, service_value op (do_service_objects op ! snd ks))) (do_services op)"

text \<open>
  One phase of \<^verbatim>\<open>run()\<close>: the command, \<^verbatim>\<open>self.wait()\<close>, and the test
  \<^verbatim>\<open>self.result != 0\<close>, whose value is returned.
\<close>

definition discover_phase ::
  "environment \<Rightarrow> nat \<Rightarrow> command \<Rightarrow> silabs_access_point \<Rightarrow> event list \<Rightarrow>
   bool outcome \<times> silabs_access_point \<times> event list" where
  "discover_phase env r cmd ap evs =
     (case wait env r (issue cmd ap) evs of
        Blocked ap' \<Rightarrow> (Blocks, ap', [])
      | Event_thread_raised err ap' \<Rightarrow> (Event_thread_raises err, ap', [])
      | Woken ap' rest \<Rightarrow>
          (case do_result (discover_at ap' r) of
             None \<Rightarrow> (Raises (AttributeError ''result''), ap', rest)
           | Some res \<Rightarrow> (Returns (res \<noteq> 0), ap', rest)))"

text \<open>
  The loop over \<^verbatim>\<open>service.characteristics.values()\<close> of the service object \<open>s\<close>: \<open>n\<close> is
  the size of the dictionary when the loop started and the list holds the positions still
  to visit. A dictionary iterator raises when the size has changed. The result
  \<open>Returns True\<close> is the \<^verbatim>\<open>return\<close> after a failed phase, \<open>Returns False\<close> the end of
  the loop.
\<close>

fun characteristics_loop ::
  "environment \<Rightarrow> nat \<Rightarrow> nat \<Rightarrow> nat \<Rightarrow> nat list \<Rightarrow> silabs_access_point \<Rightarrow> event list \<Rightarrow>
   bool outcome \<times> silabs_access_point \<times> event list" where
  "characteristics_loop env r s n [] ap evs =
     (if length (so_characteristics (do_service_objects (discover_at ap r) ! s)) \<noteq> n
      then (Raises (RuntimeError ''dictionary changed size during iteration''), ap, evs)
      else (Returns False, ap, evs))"
| "characteristics_loop env r s n (j # js) ap evs =
     (let d = so_characteristics (do_service_objects (discover_at ap r) ! s) in
      if length d \<noteq> n
      then (Raises (RuntimeError ''dictionary changed size during iteration''), ap, evs)
      else
        let c = snd (d ! j);
            ap1 = update_discover r (\<lambda>op. op\<lparr>do_current_characteristic := Some c\<rparr>) ap;
            cmd = discover_descriptors (do_handle (discover_at ap1 r))
                    (char_handle (do_characteristic_objects (discover_at ap1 r) ! c))
        in (case discover_phase env r cmd ap1 evs of
              (Returns False, ap2, rest) \<Rightarrow> characteristics_loop env r s n js ap2 rest
            | other \<Rightarrow> other))"

text \<open>The loop over \<^verbatim>\<open>self.services.values()\<close>.\<close>

fun services_loop ::
  "environment \<Rightarrow> nat \<Rightarrow> nat \<Rightarrow> nat list \<Rightarrow> silabs_access_point \<Rightarrow> event list \<Rightarrow>
   bool outcome \<times> silabs_access_point \<times> event list" where
  "services_loop env r n [] ap evs =
     (if length (do_services (discover_at ap r)) \<noteq> n
      then (Raises (RuntimeError ''dictionary changed size during iteration''), ap, evs)
      else (Returns False, ap, evs))"
| "services_loop env r n (i # is) ap evs =
     (let d = do_services (discover_at ap r) in
      if length d \<noteq> n
      then (Raises (RuntimeError ''dictionary changed size during iteration''), ap, evs)
      else
        let s = snd (d ! i);
            cmd = discover_characteristics (do_handle (discover_at ap r))
                    (so_service_handle (do_service_objects (discover_at ap r) ! s));
            ap1 = update_discover r (\<lambda>op. op\<lparr>do_current_service := Some s\<rparr>) ap
        in (case discover_phase env r cmd ap1 evs of
              (Returns False, ap2, rest) \<Rightarrow>
                (let m = length (so_characteristics (do_service_objects (discover_at ap2 r) ! s))
                 in case characteristics_loop env r s m [0..<m] ap2 rest of
                      (Returns False, ap3, rest') \<Rightarrow> services_loop env r n is ap3 rest'
                    | other \<Rightarrow> other)
            | other \<Rightarrow> other))"

text \<open>
  \<^verbatim>\<open>DiscoverOperation.run\<close>. After a failed phase it logs and returns; only the complete
  walk sets \<^verbatim>\<open>is_done\<close>. Either way the caller sees a normal return.
\<close>

definition DiscoverOperation_run ::
  "environment \<Rightarrow> nat \<Rightarrow> silabs_access_point \<Rightarrow> event list \<Rightarrow>
   unit outcome \<times> silabs_access_point \<times> event list" where
  "DiscoverOperation_run env r ap evs =
     (case discover_phase env r (discover_primary_services (do_handle (discover_at ap r))) ap evs of
        (Returns True, ap1, rest) \<Rightarrow> (Returns (), ap1, rest)
      | (Returns False, ap1, rest) \<Rightarrow>
          (let n = length (do_services (discover_at ap1 r))
           in case services_loop env r n [0..<n] ap1 rest of
                (Returns True, ap2, rest') \<Rightarrow> (Returns (), ap2, rest')
              | (Returns False, ap2, rest') \<Rightarrow>
                  (Returns (), update_discover r (\<lambda>op. op\<lparr>do_is_done := True\<rparr>) ap2, rest')
              | (Raises err, ap2, rest') \<Rightarrow> (Raises err, ap2, rest')
              | (Blocks, ap2, rest') \<Rightarrow> (Blocks, ap2, rest')
              | (Event_thread_raises err, ap2, rest') \<Rightarrow> (Event_thread_raises err, ap2, rest'))
      | (Raises err, ap1, rest) \<Rightarrow> (Raises err, ap1, rest)
      | (Blocks, ap1, rest) \<Rightarrow> (Blocks, ap1, rest)
      | (Event_thread_raises err, ap1, rest) \<Rightarrow> (Event_thread_raises err, ap1, rest))"

text \<open>
  \<^verbatim>\<open>DiscoverOperation.response\<close>, which applies the service filter. A string is in the
  list of requested services only as a plain identifier.
\<close>

definition DiscoverOperation_response :: "discover_operation \<Rightarrow> discover_response" where
  "DiscoverOperation_response op =
     (if do_requested_services op \<noteq> []
      then \<lparr>dr_address = str_int (do_handle op),
            dr_services = Service_list
              (filter (\<lambda>s. Request_id (service_id s) \<in> set (do_requested_services op))
                 (dict_values (services_value op)))\<rparr>
      else \<lparr>dr_address = str_int (do_handle op),
            dr_services = Service_list (dict_values (services_value op))\<rparr>)"

text \<open>
  \<^verbatim>\<open>SilabsAccessPoint.discover\<close>. The registry entry receives the operation's service
  dictionary (here: its value when \<^verbatim>\<open>run()\<close> returned), and the same dictionary goes into
  the response.
\<close>

definition silabs_discover ::
  "environment \<Rightarrow> silabs_access_point \<Rightarrow> string \<Rightarrow> ble_connect_options \<Rightarrow> int \<Rightarrow>
   event list \<Rightarrow> discover_response outcome \<times> silabs_access_point \<times> event list" where
  "silabs_discover env ap addr opts retries evs =
     (case dict_get (conn_reqs ap) addr of
        None \<Rightarrow> (Raises (BleDiscoveryError ''not connected''), ap, evs)
      | Some conn_req \<Rightarrow>
          let (r, ap1) = append_operation
                (Discover (DiscoverOperation (handle conn_req) retries (requested opts))) ap
          in (case DiscoverOperation_run env r ap1 evs of
                (Returns u, ap2, rest) \<Rightarrow>
                  (case dict_get (conn_reqs ap2) addr of
                     None \<Rightarrow> (Raises (KeyError addr), ap2, rest)
                   | Some conn_req' \<Rightarrow>
                       let svcs = services_value (discover_at ap2 r) in
                       (Returns \<lparr>dr_address = addr, dr_services = Service_dict svcs\<rparr>,
                        ap2\<lparr>conn_reqs :=
                              dict_set (conn_reqs ap2) addr (conn_req'\<lparr>services := svcs\<rparr>)\<rparr>,
                        rest))
              | (Raises err, ap2, rest) \<Rightarrow> (Raises err, ap2, rest)
              | (Blocks, ap2, rest) \<Rightarrow> (Blocks, ap2, rest)
              | (Event_thread_raises err, ap2, rest) \<Rightarrow> (Event_thread_raises err, ap2, rest)))"

subsection \<open>Calls that use the operation classes without source\<close>

text \<open>
  \<^verbatim>\<open>run()\<close> of such an operation: the events given to the call are those delivered while
  \<^verbatim>\<open>run()\<close> executes; each goes through \<^verbatim>\<open>event_handler\<close>.
\<close>

fun deliver ::
  "environment \<Rightarrow> silabs_access_point \<Rightarrow> event list \<Rightarrow> error + silabs_access_point" where
  "deliver env ap [] = Inr ap"
| "deliver env ap (e # es) =
     (case event_handler env ap e of Inl err \<Rightarrow> Inl err | Inr ap' \<Rightarrow> deliver env ap' es)"

definition new_missing ::
  "environment \<Rightarrow> missing_class \<Rightarrow> argument list \<Rightarrow> operation" where
  "new_missing env cls args = Missing ((missing_init env cls args)\<lparr>mo_class := cls\<rparr>)"

definition run_missing ::
  "environment \<Rightarrow> missing_class \<Rightarrow> silabs_access_point \<Rightarrow> event list \<Rightarrow>
   error + silabs_access_point" where
  "run_missing env cls ap evs = deliver env (issue (Missing_call cls ''run'') ap) evs"

definition silabs_connectable :: "environment \<Rightarrow> silabs_access_point \<Rightarrow> bool" where
  "silabs_connectable env ap = (int (length (conn_reqs ap)) < SL_BT_CONFIG_MAX_CONNECTIONS env)"

definition silabs_start_scan ::
  "environment \<Rightarrow> silabs_access_point \<Rightarrow> event list \<Rightarrow>
   unit outcome \<times> silabs_access_point \<times> event list" where
  "silabs_start_scan env ap evs =
     (let (r, ap1) = append_operation (new_missing env ScanOperation []) ap
      in case run_missing env ScanOperation ap1 evs of
           Inl err \<Rightarrow> (Event_thread_raises err, ap1, [])
         | Inr ap2 \<Rightarrow> (Returns (), ap2, []))"

definition silabs_connect ::
  "environment \<Rightarrow> silabs_access_point \<Rightarrow> string \<Rightarrow> ble_connect_options \<Rightarrow> int \<Rightarrow>
   event list \<Rightarrow> unit outcome \<times> silabs_access_point \<times> event list" where
  "silabs_connect env ap addr opts retries evs =
     (if \<not> silabs_connectable env ap then (Raises (BleConnectionError ''max connections''), ap, evs)
      else if dict_contains (conn_reqs ap) addr
        then (Raises (BleConnectionError ''already connected''), ap, evs)
      else
        let (r, ap1) = append_operation
              (new_missing env ConnectOperation [Arg_str addr, Arg_int retries]) ap
        in case run_missing env ConnectOperation ap1 evs of
             Inl err \<Rightarrow> (Event_thread_raises err, ap1, [])
           | Inr ap2 \<Rightarrow>
               if \<not> op_is_set (objects ap2 ! r)
               then (Raises (BleConnectionError ''connection operation failed''), ap2, [])
               else (case op_handle (objects ap2 ! r) of
                       None \<Rightarrow> (Raises (AttributeError ''handle''), ap2, [])
                     | Some h \<Rightarrow>
                         (Returns (),
                          ap2\<lparr>conn_reqs := dict_set (conn_reqs ap2) addr
                                 \<lparr>address = addr, handle = h, services = []\<rparr>\<rparr>, [])))"

definition silabs_subscribe ::
  "environment \<Rightarrow> silabs_access_point \<Rightarrow> string \<Rightarrow> string \<Rightarrow> string \<Rightarrow> event list \<Rightarrow>
   subscribe_response outcome \<times> silabs_access_point \<times> event list" where
  "silabs_subscribe env ap addr service_uuid char_uuid evs =
     (case dict_get (conn_reqs ap) addr of
        None \<Rightarrow> (Raises (BleSubscribeError ''not connected''), ap, evs)
      | Some conn_req \<Rightarrow>
          (case dict_get (services conn_req) service_uuid of
             None \<Rightarrow> (Raises (KeyError service_uuid), ap, evs)
           | Some svc \<Rightarrow>
               (case dict_get (characteristics svc) char_uuid of
                  None \<Rightarrow> (Raises (KeyError char_uuid), ap, evs)
                | Some chr \<Rightarrow>
                    let (r, ap1) = append_operation
                          (new_missing env SubscribeOperation
                             [Arg_int (handle conn_req), Arg_int (char_handle chr),
                              Arg_list (properties chr), Arg_str addr, Arg_str service_uuid,
                              Arg_str char_uuid]) ap
                    in (case run_missing env SubscribeOperation ap1 evs of
                          Inl err \<Rightarrow> (Event_thread_raises err, ap1, [])
                        | Inr ap2 \<Rightarrow>
                            (Returns \<lparr>sr_address = addr, sr_service_uuid = service_uuid,
                                      sr_char_uuid = char_uuid, sr_subscribed = True\<rparr>,
                             ap2, [])))))"

text \<open>
  The search loop of \<^verbatim>\<open>unsubscribe\<close>. Both attribute reads come before the
  \<^verbatim>\<open>isinstance\<close> test, so an operation without \<^verbatim>\<open>char_handle\<close> or \<^verbatim>\<open>handle\<close> ahead of
  the subscription raises \<^verbatim>\<open>AttributeError\<close>. The result is the reference of the
  subscription found, if any.
\<close>

fun find_subscription ::
  "operation list \<Rightarrow> int \<Rightarrow> int \<Rightarrow> nat list \<Rightarrow> error + nat option" where
  "find_subscription objs h ch [] = Inr None"
| "find_subscription objs h ch (r # rs) =
     (case op_char_handle (objs ! r) of
        None \<Rightarrow> Inl (AttributeError ''char_handle'')
      | Some och \<Rightarrow>
          (case op_handle (objs ! r) of
             None \<Rightarrow> Inl (AttributeError ''handle'')
           | Some oh \<Rightarrow>
               if is_SubscribeOperation (objs ! r) \<and> oh = h \<and> och = ch then Inr (Some r)
               else find_subscription objs h ch rs))"

definition disable_notification :: "environment \<Rightarrow> nat \<Rightarrow> silabs_access_point \<Rightarrow> silabs_access_point" where
  "disable_notification env r ap =
     (case objects ap ! r of
        Missing x \<Rightarrow>
          issue (Missing_call SubscribeOperation ''disable_notification'')
            (ap\<lparr>objects := (objects ap)
                  [r := Missing ((missing_disable_notification env x)\<lparr>mo_class := mo_class x\<rparr>)]\<rparr>)
      | _ \<Rightarrow> ap)"

definition silabs_unsubscribe ::
  "environment \<Rightarrow> silabs_access_point \<Rightarrow> string \<Rightarrow> string \<Rightarrow> string \<Rightarrow>
   unsubscribe_response outcome \<times> silabs_access_point" where
  "silabs_unsubscribe env ap addr service_uuid char_uuid =
     (case dict_get (conn_reqs ap) addr of
        None \<Rightarrow> (Raises (BleUnsubscribeError ''not connected''), ap)
      | Some conn_req \<Rightarrow>
          (case dict_get (services conn_req) service_uuid of
             None \<Rightarrow> (Raises (KeyError service_uuid), ap)
           | Some svc \<Rightarrow>
               (case dict_get (characteristics svc) char_uuid of
                  None \<Rightarrow> (Raises (KeyError char_uuid), ap)
                | Some chr \<Rightarrow>
                    (case find_subscription (objects ap) (handle conn_req) (char_handle chr)
                            (operations ap) of
                       Inl err \<Rightarrow> (Raises err, ap)
                     | Inr (Some r) \<Rightarrow>
                         (Returns \<lparr>ur_address = addr, ur_service_uuid = service_uuid,
                                   ur_char_uuid = char_uuid, ur_unsubscribed = True\<rparr>,
                          disable_notification env r ap)
                     | Inr None \<Rightarrow> (Raises (BleUnsubscribeError ''not subscribed''), ap)))))"

text \<open>
  \<^verbatim>\<open>SilabsAccessPoint.disconnect\<close> starts with \<^verbatim>\<open>self.conn_reqs[address].handle\<close>: there
  is no membership test, and an absent address raises \<^verbatim>\<open>KeyError\<close>.
\<close>

definition silabs_disconnect ::
  "environment \<Rightarrow> silabs_access_point \<Rightarrow> string \<Rightarrow> event list \<Rightarrow>
   unit outcome \<times> silabs_access_point \<times> event list" where
  "silabs_disconnect env ap addr evs =
     (case dict_get (conn_reqs ap) addr of
        None \<Rightarrow> (Raises (KeyError addr), ap, evs)
      | Some conn_req \<Rightarrow>
          let (r, ap1) = append_operation
                (new_missing env DisconnectOperation [Arg_int (handle conn_req)]) ap
          in (case run_missing env DisconnectOperation ap1 evs of
                Inl err \<Rightarrow> (Event_thread_raises err, ap1, [])
              | Inr ap2 \<Rightarrow>
                  (if \<not> op_is_set (objects ap2 ! r)
                   then (Raises (BleDisconnectError ''disconnect operation failed''), ap2, [])
                   else (Returns (), ap2, []))))"

text \<open>ASCII lower-casing, to speak about case variants of an address.\<close>

definition lower_char :: "char \<Rightarrow> char" where
  "lower_char c =
     (if (65::nat) \<le> of_char c \<and> of_char c \<le> (90::nat) then char_of (of_char c + (32::nat)) else c)"

definition lower :: "string \<Rightarrow> string" where
  "lower s = map lower_char s"

section \<open>Concrete inputs\<close>

text \<open>
  A radio-chip access point whose registry holds one connection, to the peer
  \<^verbatim>\<open>C1:5C:00:00:00:00\<close> with connection handle 1, before any discovery.
\<close>

definition peer :: string where
  "peer = ''C1:5C:00:00:00:00''"

definition connected_ap :: silabs_access_point where
  "connected_ap =
     SilabsAccessPoint\<lparr>conn_reqs := [(peer, \<lparr>address = peer, handle = 1, services = []\<rparr>)]\<rparr>"

text \<open>
  The backend announces the services \<^verbatim>\<open>180d\<close> (handle 10) and \<^verbatim>\<open>180f\<close> (handle 20) and
  completes the service phase with result 0; it announces characteristic \<^verbatim>\<open>2a37\<close> of the
  first service and then completes the characteristic phase with the non-zero result
  \<^verbatim>\<open>0x185\<close>.
\<close>

definition failing_walk :: "event list" where
  "failing_walk =
     [bt_evt_gatt_service 1 [0x0d, 0x18] 10,
      bt_evt_gatt_service 1 [0x0f, 0x18] 20,
      bt_evt_gatt_procedure_completed 1 0,
      bt_evt_gatt_characteristic 1 [0x37, 0x2a] 11 0x12,
      bt_evt_gatt_procedure_completed 1 0x185]"

text \<open>
  A complete walk: the same two services, characteristic \<^verbatim>\<open>2a37\<close> with descriptor
  \<^verbatim>\<open>2902\<close> in the first, nothing in the second, every phase completing with result 0.
\<close>

definition complete_walk :: "event list" where
  "complete_walk =
     [bt_evt_gatt_service 1 [0x0d, 0x18] 10,
      bt_evt_gatt_service 1 [0x0f, 0x18] 20,
      bt_evt_gatt_procedure_completed 1 0,
      bt_evt_gatt_characteristic 1 [0x37, 0x2a] 11 0x12,
      bt_evt_gatt_procedure_completed 1 0,
      bt_evt_gatt_descriptor 1 [0x02, 0x29] 12,
      bt_evt_gatt_procedure_completed 1 0,
      bt_evt_gatt_procedure_completed 1 0]"

definition heart_rate :: service where
  "heart_rate =
     \<lparr>service_id = ''180d'', service_handle = 10,
      characteristics =
        [(''2a37'', \<lparr>characteristic_id = ''2a37'', char_handle = 11,
                     properties = [''read'', ''notify''],
                     descriptors = [(''2902'', \<lparr>descriptor_id = ''2902'', desc_handle = 12\<rparr>)]\<rparr>)]\<rparr>"

definition heart_rate_partial :: service where
  "heart_rate_partial =
     \<lparr>service_id = ''180d'', service_handle = 10,
      characteristics =
        [(''2a37'', \<lparr>characteristic_id = ''2a37'', char_handle = 11,
                     properties = [''read'', ''notify''], descriptors = []\<rparr>)]\<rparr>"

definition battery :: service where
  "battery = \<lparr>service_id = ''180f'', service_handle = 20, characteristics = []\<rparr>"

section \<open>Sequences of calls\<close>

text \<open>
  A call on the mock access point, and the state it leaves. A raised exception leaves
  the state as it was.
\<close>

datatype mock_call =
    Mock_connect string ble_connect_options int
  | Mock_discover string ble_connect_options int
  | Mock_read string string string
  | Mock_write string string string bytes
  | Mock_subscribe string string string
  | Mock_unsubscribe string string string
  | Mock_disconnect string

fun mock_step :: "mock_access_point \<Rightarrow> mock_call \<Rightarrow> mock_access_point" where
  "mock_step ap (Mock_connect a opts retries) = snd (mock_connect ap a opts retries)"
| "mock_step ap (Mock_discover a opts retries) = snd (mock_discover ap a opts retries)"
| "mock_step ap (Mock_read a s c) = snd (mock_read ap a s c)"
| "mock_step ap (Mock_write a s c v) = snd (mock_write ap a s c v)"
| "mock_step ap (Mock_subscribe a s c) = snd (mock_subscribe ap a s c)"
| "mock_step ap (Mock_unsubscribe a s c) = snd (mock_unsubscribe ap a s c)"
| "mock_step ap (Mock_disconnect a) = snd (mock_disconnect ap a)"

text \<open>
  A step of the radio-chip access point: a call together with the events the backend
  delivers while it runs, or events delivered while no call runs. Events that a call left
  unread are not part of its step; they belong to a later step.
\<close>

datatype silabs_call =
    Call_connect string ble_connect_options int
  | Call_discover string ble_connect_options int
  | Call_read string string string
  | Call_write string string string bytes
  | Call_subscribe string string string
  | Call_unsubscribe string string string
  | Call_disconnect string
  | Call_start_scan
  | No_call

fun silabs_step ::
  "environment \<Rightarrow> silabs_access_point \<Rightarrow> silabs_call \<times> event list \<Rightarrow> silabs_access_point" where
  "silabs_step env ap (Call_connect a opts retries, evs) =
     fst (snd (silabs_connect env ap a opts retries evs))"
| "silabs_step env ap (Call_discover a opts retries, evs) =
     fst (snd (silabs_discover env ap a opts retries evs))"
| "silabs_step env ap (Call_read a s c, evs) = fst (snd (silabs_read env ap a s c evs))"
| "silabs_step env ap (Call_write a s c v, evs) = fst (snd (silabs_write env ap a s c v evs))"
| "silabs_step env ap (Call_subscribe a s c, evs) =
     fst (snd (silabs_subscribe env ap a s c evs))"
| "silabs_step env ap (Call_unsubscribe a s c, evs) = snd (silabs_unsubscribe env ap a s c)"
| "silabs_step env ap (Call_disconnect a, evs) = fst (snd (silabs_disconnect env ap a evs))"
| "silabs_step env ap (Call_start_scan, evs) = fst (snd (silabs_start_scan env ap evs))"
| "silabs_step env ap (No_call, evs) =
     (case deliver env ap evs of Inl err \<Rightarrow> ap | Inr ap' \<Rightarrow> ap')"

text \<open>The registry is a dictionary in which \<open>a\<close> is connected with handle \<open>h\<close>.\<close>

definition registered ::
  "string \<Rightarrow> int \<Rightarrow> (string, connection_request) dict \<Rightarrow> bool" where
  "registered a h d =
     (distinct (map fst d) \<and> (case dict_get d a of None \<Rightarrow> False | Some cr \<Rightarrow> handle cr = h))"

definition wait_state :: "wait_result \<Rightarrow> silabs_access_point" where
  "wait_state w = (case w of Woken ap rest \<Rightarrow> ap | Blocked ap \<Rightarrow> ap
                   | Event_thread_raised err ap \<Rightarrow> ap)"

definition wait_rest :: "wait_result \<Rightarrow> event list" where
  "wait_rest w = (case w of Woken ap rest \<Rightarrow> rest | _ \<Rightarrow> [])"

text \<open>
  One possible behaviour of the operation classes without source, used for concrete runs
  only: a connect operation without a handle takes the handle of the next
  \<^verbatim>\<open>connection_opened\<close> event and is set by it; a disconnect operation is set and done on the
  \<^verbatim>\<open>connection_closed\<close> event of its handle; a subscribe operation is set when a procedure
  on its connection completes.
\<close>

definition sample_init :: "missing_class \<Rightarrow> argument list \<Rightarrow> missing_operation" where
  "sample_init cls args =
     \<lparr>mo_class = cls,
      mo_handle = (case args of Arg_int h # _ \<Rightarrow> Some h | _ \<Rightarrow> None),
      mo_char_handle = (case args of Arg_int h # Arg_int c # _ \<Rightarrow> Some c | _ \<Rightarrow> None),
      mo_flag = False, mo_is_done = False, mo_internal = 0\<rparr>"

fun sample_handle_event :: "missing_operation \<Rightarrow> event \<Rightarrow> missing_operation" where
  "sample_handle_event op (bt_evt_connection_opened a conn) =
     (if mo_class op = ConnectOperation \<and> mo_handle op = None
      then op\<lparr>mo_handle := Some conn, mo_flag := True\<rparr> else op)"
| "sample_handle_event op (bt_evt_connection_closed conn reason) =
     (if mo_class op = DisconnectOperation \<and> mo_handle op = Some conn
      then op\<lparr>mo_flag := True, mo_is_done := True\<rparr> else op)"
| "sample_handle_event op (bt_evt_gatt_procedure_completed conn res) =
     (if mo_class op = SubscribeOperation \<and> mo_handle op = Some conn
      then op\<lparr>mo_flag := True\<rparr> else op)"
| "sample_handle_event op _ = op"

definition sample_env :: environment where
  "sample_env =
     \<lparr>SL_BT_CONFIG_MAX_CONNECTIONS = 4, ATT_OPCODE_READ_RESPONSE = 11,
      missing_init = sample_init, missing_handle_event = sample_handle_event,
      missing_disable_notification = (\<lambda>op. op\<lparr>mo_is_done := True\<rparr>)\<rparr>"

text \<open>The connected access point after a complete walk has been cached.\<close>

definition discovered_ap :: silabs_access_point where
  "discovered_ap =
     SilabsAccessPoint\<lparr>conn_reqs :=
       [(peer, \<lparr>address = peer, handle = 1,
                services = [(''180d'', heart_rate), (''180f'', battery)]\<rparr>)]\<rparr>"

section \<open>Writing on the host-stack backend (\<^verbatim>\<open>bluez_access_point.py\<close>)\<close>

text \<open>
  \<^verbatim>\<open>WriteResponse\<close> is a dataclass with five fields and no defaults: a call that leaves
  out \<^verbatim>\<open>value\<close> or \<^verbatim>\<open>success\<close> raises \<^verbatim>\<open>TypeError\<close>, here the \<open>Inl\<close> with its text.
\<close>

definition WriteResponse ::
  "string \<Rightarrow> string \<Rightarrow> string \<Rightarrow> bytes option option \<Rightarrow> bool option \<Rightarrow>
   string + write_response" where
  "WriteResponse a s c val success =
     (case (val, success) of
        (Some v, Some ok) \<Rightarrow>
          Inr \<lparr>wr_address = a, wr_service_uuid = s, wr_char_uuid = c, wr_value = v,
               wr_success = ok\<rparr>
      | _ \<Rightarrow> Inl ''__init__() missing required positional arguments'')"

text \<open>
  \<^verbatim>\<open>BluezAccessPoint.write\<close>. What the Bluetooth library does is given by three
  parameters: whether the client of the address exists and is connected, the result of
  \<^verbatim>\<open>bytes.fromhex(value)\<close>, and the result of awaiting \<^verbatim>\<open>write_gatt_char\<close> (\<open>Inl\<close>: the
  text of the exception raised). Every exception inside the \<^verbatim>\<open>try\<close> block becomes a
  \<^verbatim>\<open>BleWriteError\<close>, also the one raised by the constructor of the response.
\<close>

definition bluez_write ::
  "bool \<Rightarrow> string + bytes \<Rightarrow> (bytes \<Rightarrow> string + unit) \<Rightarrow> string \<Rightarrow> string \<Rightarrow> string \<Rightarrow>
   error + write_response" where
  "bluez_write connected parsed write_gatt_char addr service_uuid char_uuid =
     (if \<not> connected then Inl (BleWriteError ''not connected'')
      else case parsed of
        Inl e \<Rightarrow> Inl (BleWriteError (''write failed: '' @ e))
      | Inr data \<Rightarrow>
          (case write_gatt_char data of
             Inl e \<Rightarrow> Inl (BleWriteError (''write failed: '' @ e))
           | Inr u \<Rightarrow>
               (case WriteResponse addr service_uuid char_uuid None None of
                  Inl e \<Rightarrow> Inl (BleWriteError (''write failed: '' @ e))
                | Inr resp \<Rightarrow> Inr resp)))"

section \<open>What a signalled operation has seen\<close>

text \<open>
  A read operation on connection \<open>h\<close> and characteristic \<open>c\<close> whose flag, if set, was set
  by a read-response event of \<open>S\<close> carrying the stored value; a write operation on
  connection \<open>h\<close> whose flag, if set, was set by a procedure-completed event of \<open>S\<close>.
\<close>

definition read_answered :: "event set \<Rightarrow> int \<Rightarrow> int \<Rightarrow> int \<Rightarrow> operation \<Rightarrow> bool" where
  "read_answered S opcode h c op =
     (case op of
        Read x \<Rightarrow>
          ro_handle x = h \<and> ro_char_handle x = c \<and>
          (ro_flag x \<longrightarrow>
             (case ro_value x of
                None \<Rightarrow> False
              | Some v \<Rightarrow> bt_evt_gatt_characteristic_value h c opcode v \<in> S))
      | _ \<Rightarrow> False)"

definition write_acknowledged :: "event set \<Rightarrow> int \<Rightarrow> operation \<Rightarrow> bool" where
  "write_acknowledged S h op =
     (case op of
        Write x \<Rightarrow> wo_handle x = h \<and> (wo_flag x \<longrightarrow> (\<exists>res. bt_evt_gatt_procedure_completed h res \<in> S))
      | _ \<Rightarrow> False)"

text \<open>Concrete calls and steps for the runs below.\<close>

definition peer_lower :: string where
  "peer_lower = ''c1:5c:00:00:00:00''"

definition opened :: "event list" where
  "opened = [bt_evt_connection_opened peer 1]"

definition completed :: "event list" where
  "completed = [bt_evt_gatt_procedure_completed 1 0]"

definition mock_calls :: "mock_call list" where
  "mock_calls =
     [Mock_discover peer BleConnectOptions 3,
      Mock_subscribe peer ''180d'' ''2a37'',
      Mock_connect ''C1:5C:00:00:00:01'' BleConnectOptions 3,
      Mock_disconnect ''C1:5C:00:00:00:01'']"

definition silabs_steps :: "(silabs_call \<times> event list) list" where
  "silabs_steps =
     [(Call_discover peer BleConnectOptions 3, complete_walk),
      (Call_read peer ''180d'' ''2a37'', [bt_evt_gatt_characteristic_value 1 11 11 [0x48]]),
      (No_call, [bt_evt_gatt_procedure_completed 1 0, bt_evt_connection_closed 2 0])]"

definition answered :: "event list" where
  "answered = [bt_evt_gatt_characteristic_value 1 11 11 [0x48]]"

definition connected_mock :: mock_access_point where
  "connected_mock = snd (mock_connect MockAccessPoint peer BleConnectOptions 3)"

definition after_read :: silabs_access_point where
  "after_read = fst (snd (silabs_read sample_env discovered_ap peer ''180d'' ''2a37'' answered))"

definition peer_entry :: connection_request where
  "peer_entry =
     \<lparr>address = peer, handle = 1, services = [(''180d'', heart_rate), (''180f'', battery)]\<rparr>"


text \<open>
  A completion event with the non-zero result \<^verbatim>\<open>0x185\<close>: the backend reports that the
  procedure on connection 1 has failed.
\<close>

definition failed_completion :: "event list" where
  "failed_completion = [bt_evt_gatt_procedure_completed 1 0x185]"


section \<open>Capability decoding\<close>

lemma and_exp_eq_exp_iff_bit: "((p::int) AND 2 ^ n = 2 ^ n) = bit p n"
proof
  assume "p AND 2 ^ n = 2 ^ n"
  then have "p AND 2 ^ n \<noteq> 0" by simp
  then show "bit p n" using and_exp_eq_0_iff_not_bit [of p n] by blast
next
  assume b: "bit p n"
  show "p AND 2 ^ n = 2 ^ n"
  proof (rule bit_eqI)
    fix m show "bit (p AND 2 ^ n) m = bit (2 ^ n :: int) m"
      using b by (cases "m = n") (simp_all add: bit_and_iff bit_exp_iff)
  qed
qed

lemma and_257_iff: "((p::int) AND 0x101 = 0x101) = (bit p 0 \<and> bit p 8)"
proof
  assume e: "p AND 0x101 = 0x101"
  have "bit (p AND 0x101) 0" "bit (p AND 0x101) 8"
    unfolding e by (simp_all add: bit_iff_odd)
  then show "bit p 0 \<and> bit p 8" by (simp add: bit_and_iff)
next
  assume b: "bit p 0 \<and> bit p 8"
  have s: "(0x101::int) = 2 ^ 0 OR 2 ^ 8" by simp
  have "p AND (2 ^ 0 OR 2 ^ 8) = (p AND 2 ^ 0) OR (p AND 2 ^ 8)"
    by (rule bit.conj_disj_distrib)
  also have "\<dots> = 2 ^ 0 OR 2 ^ 8"
    using b and_exp_eq_exp_iff_bit [of p 0] and_exp_eq_exp_iff_bit [of p 8] by simp
  finally show "p AND 0x101 = 0x101" unfolding s .
qed

lemma mask_tests:
  fixes p :: int
  shows "(p AND 0x02 = 0x02) = bit p 1" "(p AND 0x04 = 0x04) = bit p 2"
    "(p AND 0x08 = 0x08) = bit p 3" "(p AND 0x10 = 0x10) = bit p 4"
    "(p AND 0x20 = 0x20) = bit p 5" "(p AND 0x80 = 0x80) = bit p 7"
  using and_exp_eq_exp_iff_bit [of p 1] and_exp_eq_exp_iff_bit [of p 2]
    and_exp_eq_exp_iff_bit [of p 3] and_exp_eq_exp_iff_bit [of p 4]
    and_exp_eq_exp_iff_bit [of p 5] and_exp_eq_exp_iff_bit [of p 7]
  by simp_all

lemma init_properties_concat:
  "init_properties p =
     (if bit p 1 then [''read''] else []) @
     (if bit p 2 then [''write_no_response''] else []) @
     (if bit p 3 then [''write''] else []) @
     (if bit p 4 then [''notify''] else []) @
     (if bit p 5 then [''indicate''] else []) @
     (if bit p 7 then [''extended_props''] else []) @
     (if bit p 0 \<and> bit p 8 then [''reliable_write''] else [])"
  unfolding init_properties_def Let_def mask_tests and_257_iff
  by simp

lemma in_optional: "x \<in> set (if c then [a] else []) \<longleftrightarrow> c \<and> x = a"
  by auto

lemma optional_cons: "(if c then [a] else []) @ xs = (if c then a # xs else xs)"
  by simp

lemma init_properties_mem:
  "''read'' \<in> set (init_properties p) \<longleftrightarrow> bit p 1"
  "''write_no_response'' \<in> set (init_properties p) \<longleftrightarrow> bit p 2"
  "''write'' \<in> set (init_properties p) \<longleftrightarrow> bit p 3"
  "''notify'' \<in> set (init_properties p) \<longleftrightarrow> bit p 4"
  "''indicate'' \<in> set (init_properties p) \<longleftrightarrow> bit p 5"
  "''extended_props'' \<in> set (init_properties p) \<longleftrightarrow> bit p 7"
  "''reliable_write'' \<in> set (init_properties p) \<longleftrightarrow> bit p 0 \<and> bit p 8"
  unfolding init_properties_concat
  by (simp_all add: in_optional split del: if_split)

lemma init_properties_order:
  "init_properties p = filter (\<lambda>f. f \<in> set (init_properties p)) flag_order"
proof -
  have "filter (\<lambda>f. f \<in> set (init_properties p)) flag_order =
     (if bit p 1 then [''read''] else []) @
     (if bit p 2 then [''write_no_response''] else []) @
     (if bit p 3 then [''write''] else []) @
     (if bit p 4 then [''notify''] else []) @
     (if bit p 5 then [''indicate''] else []) @
     (if bit p 7 then [''extended_props''] else []) @
     (if bit p 0 \<and> bit p 8 then [''reliable_write''] else [])"
    unfolding flag_order_def
    by (simp only: filter.simps init_properties_mem optional_cons append_Nil2)
  then show ?thesis by (simp only: init_properties_concat [symmetric])
qed

lemma init_properties_0x12: "init_properties 0x12 = [''read'', ''notify'']"
  by (simp add: init_properties_def)

text \<open>
  Claim C8. For every raw property bitmask \<open>p\<close>, the capability flags of a characteristic
  built from \<open>p\<close> contain "read" iff bit 0x02 (bit 1) is set, "write_no_response" iff 0x04,
  "write" iff 0x08, "notify" iff 0x10, "indicate" iff 0x20, "extended_props" iff 0x80, and
  "reliable_write" iff both bits of 0x101 (bits 0 and 8) are set; the flags appear in the
  fixed order read, write_no_response, write, notify, indicate, extended_props,
  reliable_write (the list is that order restricted to the flags present); and 0x12
  decodes to exactly ["read", "notify"].
\<close>

theorem C8_capability_decode:
  "(''read'' \<in> set (properties (Characteristic cid h p)) \<longleftrightarrow> bit p 1) \<and>
   (''write_no_response'' \<in> set (properties (Characteristic cid h p)) \<longleftrightarrow> bit p 2) \<and>
   (''write'' \<in> set (properties (Characteristic cid h p)) \<longleftrightarrow> bit p 3) \<and>
   (''notify'' \<in> set (properties (Characteristic cid h p)) \<longleftrightarrow> bit p 4) \<and>
   (''indicate'' \<in> set (properties (Characteristic cid h p)) \<longleftrightarrow> bit p 5) \<and>
   (''extended_props'' \<in> set (properties (Characteristic cid h p)) \<longleftrightarrow> bit p 7) \<and>
   (''reliable_write'' \<in> set (properties (Characteristic cid h p)) \<longleftrightarrow> bit p 0 \<and> bit p 8) \<and>
   properties (Characteristic cid h p) =
     filter (\<lambda>f. f \<in> set (properties (Characteristic cid h p))) flag_order \<and>
   properties (Characteristic cid h 0x12) = [''read'', ''notify'']"
  unfolding Characteristic_def characteristic.simps
  using init_properties_mem [of p] init_properties_order [of p] init_properties_0x12
  by blast

section \<open>Calls on an address that is not connected\<close>

text \<open>
  Claim C1 says that on an address absent from the registry each of read, write,
  subscribe, unsubscribe, discover and disconnect fails with its own error kind before any
  backend command. Evaluated on the empty registry: the radio-chip \<^verbatim>\<open>disconnect\<close> raises
  \<^verbatim>\<open>KeyError\<close> (no operation is created, no command is issued, the events stay unread),
  not \<^verbatim>\<open>BleDisconnectError\<close>; and the mock \<^verbatim>\<open>unsubscribe\<close> raises \<^verbatim>\<open>BleSubscribeError\<close>,
  not \<^verbatim>\<open>BleUnsubscribeError\<close>.
\<close>

theorem C1_not_connected_wrong_exception:
  "silabs_disconnect env SilabsAccessPoint peer evs = (Raises (KeyError peer), SilabsAccessPoint, evs) \<and>
   mock_unsubscribe MockAccessPoint peer ''180d'' ''2a37'' =
     (Inl (BleSubscribeError ''not subscribed''), MockAccessPoint)"
  by (simp add: silabs_disconnect_def SilabsAccessPoint_def mock_unsubscribe_def
      MockAccessPoint_def dict_get_def dict_contains_def)

section \<open>Discovery on the radio-chip backend\<close>

text \<open>
  Claim C3 says that a discovery phase with a non-zero result makes \<^verbatim>\<open>discover\<close> raise
  \<^verbatim>\<open>DiscoveryError\<close> and never return a partially populated service map. Evaluated on
  the walk whose characteristic phase fails: the remaining phases are indeed not started
  (two commands issued, no descriptor discovery, no second characteristic discovery), but
  the call returns a response with the partial map, and the registry caches it.
\<close>

theorem C3_failed_phase_returns_partial_map:
  "fst (silabs_discover env connected_ap peer BleConnectOptions 3 failing_walk) =
     Returns \<lparr>dr_address = peer,
              dr_services = Service_dict [(''180d'', heart_rate_partial), (''180f'', battery)]\<rparr> \<and>
   get_connection (fst (snd (silabs_discover env connected_ap peer BleConnectOptions 3 failing_walk))) peer =
     Some \<lparr>address = peer, handle = 1,
           services = [(''180d'', heart_rate_partial), (''180f'', battery)]\<rparr> \<and>
   issued (fst (snd (silabs_discover env connected_ap peer BleConnectOptions 3 failing_walk))) =
     [discover_primary_services 1, discover_characteristics 1 10]"
  by code_simp

text \<open>
  Claim C4 says that a request naming a subset of services gets only those services in
  the response. Evaluated on a complete walk with the filter \<^verbatim>\<open>["180f"]\<close>: the response of
  \<^verbatim>\<open>discover\<close> carries both services, because the access point builds the response from
  the operation's whole dictionary; \<^verbatim>\<open>DiscoverOperation.response\<close>, which filters, would
  have returned \<^verbatim>\<open>180f\<close> alone. The registry holds the full walk, as the claim says.
\<close>

theorem C4_filter_not_applied:
  "fst (silabs_discover env connected_ap peer (BleConnectOptions\<lparr>requested := [Request_id ''180f'']\<rparr>) 3
          complete_walk) =
     Returns \<lparr>dr_address = peer,
              dr_services = Service_dict [(''180d'', heart_rate), (''180f'', battery)]\<rparr> \<and>
   get_connection (fst (snd (silabs_discover env connected_ap peer
          (BleConnectOptions\<lparr>requested := [Request_id ''180f'']\<rparr>) 3 complete_walk))) peer =
     Some \<lparr>address = peer, handle = 1, services = [(''180d'', heart_rate), (''180f'', battery)]\<rparr> \<and>
   DiscoverOperation_response (discover_at (fst (snd (silabs_discover env connected_ap peer
          (BleConnectOptions\<lparr>requested := [Request_id ''180f'']\<rparr>) 3 complete_walk))) 0) =
     \<lparr>dr_address = ''1'', dr_services = Service_list [battery]\<rparr>"
  by code_simp

section \<open>Dictionaries\<close>

lemma map_of_dict_set: "map_of (dict_set d k v) k' = (if k' = k then Some v else map_of d k')"
  by (induction d) auto

lemma keys_dict_set:
  "map fst (dict_set d k v) = (if k \<in> set (map fst d) then map fst d else map fst d @ [k])"
  by (induction d) (force+)

lemma distinct_dict_set: "distinct (map fst d) \<Longrightarrow> distinct (map fst (dict_set d k v))"
  by (simp add: keys_dict_set)

lemma map_of_dict_pop: "map_of (dict_pop d k) k' = (if k' = k then None else map_of d k')"
  unfolding dict_pop_def by (induction d) auto

lemma distinct_dict_pop: "distinct (map fst d) \<Longrightarrow> distinct (map fst (dict_pop d k))"
  unfolding dict_pop_def by (simp add: distinct_map_filter)

lemma dict_get_dict_set: "dict_get (dict_set d k v) k' = (if k' = k then Some v else dict_get d k')"
  by (simp add: dict_get_def map_of_dict_set)

lemma dict_contains_dict_set: "dict_contains (dict_set d k v) k' = (k' = k \<or> dict_contains d k')"
  by (simp add: dict_contains_def map_of_dict_set)

lemma dict_contains_dict_pop: "dict_contains (dict_pop d k) k' = (k' \<noteq> k \<and> dict_contains d k')"
  by (simp add: dict_contains_def map_of_dict_pop)

section \<open>The registry of the mock backend\<close>

lemma mock_connect_success:
  assumes "mock_connect ap a opts retries = (Inr (), ap')"
  shows "conn_reqs ap' = dict_set (conn_reqs ap) a \<lparr>address = a, handle = 0, services = []\<rparr>"
    and "\<not> dict_contains (conn_reqs ap) a"
  using assms by (auto simp: mock_connect_def mock_connectable_def split: if_splits)

lemma mock_connect_registered:
  "dict_contains (conn_reqs ap) a \<Longrightarrow>
   mock_connect ap a opts retries = (Inl (BleConnectionError ''already connected''), ap)"
  by (simp add: mock_connect_def mock_connectable_def)

lemma mock_step_keeps_connection:
  assumes "dict_contains (conn_reqs ap) a" and "c \<noteq> Mock_disconnect a"
  shows "dict_contains (conn_reqs (mock_step ap c)) a"
  using assms
  by (cases c)
     (auto simp: mock_connect_def mock_discover_def mock_read_def mock_write_def
        mock_subscribe_def mock_unsubscribe_def mock_disconnect_def Let_def
        dict_contains_dict_set dict_contains_dict_pop)

lemma mock_run_keeps_connection:
  "dict_contains (conn_reqs ap) a \<Longrightarrow> Mock_disconnect a \<notin> set calls \<Longrightarrow>
   dict_contains (conn_reqs (foldl mock_step ap calls)) a"
proof (induction calls arbitrary: ap)
  case Nil
  then show ?case by simp
next
  case (Cons c calls)
  from Cons.prems have "dict_contains (conn_reqs (mock_step ap c)) a"
    by (intro mock_step_keeps_connection) auto
  with Cons show ?case by simp
qed

lemma mock_connect_other:
  assumes "mock_connect m a opts retries = (Inr (), m1)" and "b \<noteq> a"
  shows "get_connection m1 b = get_connection m b"
    and "fst (mock_connect m1 b opts' retries') = fst (mock_connect m b opts' retries')"
  using mock_connect_success(1) [OF assms(1)] assms(2)
  by (simp_all add: get_connection_def dict_get_dict_set mock_connect_def mock_connectable_def
      dict_contains_dict_set)

lemma get_connection_exact:
  "distinct (map fst (conn_reqs ap)) \<Longrightarrow>
   (get_connection ap b = Some cr) = ((b, cr) \<in> set (conn_reqs ap))"
  by (simp add: get_connection_def dict_get_def)

lemma mock_not_connected:
  assumes "get_connection m a = None"
  shows "mock_discover m a opts retries = (Inl (BleDiscoveryError ''not connected''), m)"
    and "mock_read m a s c = (Inl (BleReadError ''not connected''), m)"
    and "mock_write m a s c v = (Inl (BleWriteError ''not connected''), m)"
    and "mock_subscribe m a s c = (Inl (BleSubscribeError ''not connected''), m)"
    and "mock_disconnect m a = (Inl (BleDisconnectError ''not connected''), m)"
  using assms
  by (simp_all add: get_connection_def dict_get_def dict_contains_def mock_discover_def
      mock_read_def mock_write_def mock_subscribe_def mock_disconnect_def)

lemma mock_disconnect_once:
  assumes "get_connection m a \<noteq> None"
  shows "fst (mock_disconnect m a) = Inr ()"
    and "get_connection (snd (mock_disconnect m a)) a = None"
    and "published (snd (mock_disconnect m a)) = published m @ [Connection_status 1 a False]"
    and "mock_disconnect (snd (mock_disconnect m a)) a =
           (Inl (BleDisconnectError ''not connected''), snd (mock_disconnect m a))"
  using assms
  by (simp_all add: get_connection_def dict_get_def dict_contains_def mock_disconnect_def
      map_of_dict_pop)

text \<open>
  Claim C9 says that registry lookup is case-insensitive: after a successful connect(A),
  getConnection(A') is non-null and connect(A') fails for every case variant A' of A. It
  fails on the code: the mock connects \<^verbatim>\<open>C1:5C:00:00:00:00\<close>, and for the lower-case
  variant of that address \<^verbatim>\<open>get_connection\<close> returns \<^verbatim>\<open>None\<close> and a second \<^verbatim>\<open>connect\<close>
  succeeds.
\<close>

theorem C9_case_variant_counterexample:
  "lower peer_lower = lower peer \<and> peer_lower \<noteq> peer \<and>
   fst (mock_connect MockAccessPoint peer BleConnectOptions 3) = Inr () \<and>
   get_connection (snd (mock_connect MockAccessPoint peer BleConnectOptions 3)) peer_lower = None \<and>
   fst (mock_connect (snd (mock_connect MockAccessPoint peer BleConnectOptions 3)) peer_lower
          BleConnectOptions 3) = Inr ()"
  by code_simp

text \<open>
  Claim C9, amended. Registry lookup and the already-connected test compare the address
  string exactly, with no case normalisation: in a registry that is a dictionary,
  \<^verbatim>\<open>get_connection\<close> finds a connection only under the very key it is stored with; in the
  mock backend, after a successful connect(A), getConnection(A) is the new connection and
  connect(A) fails with ConnectionError "already connected", while for every address A'
  that is a different string (a case variant included) getConnection(A') and the outcome
  of connect(A') are what they were before connect(A). So there is at most one connection
  per exact address string.
\<close>

theorem C9_registry_exact_match:
  "(distinct (map fst (conn_reqs ap)) \<longrightarrow>
      (get_connection ap b = Some cr) = ((b, cr) \<in> set (conn_reqs ap))) \<and>
   (mock_connect m a opts retries = (Inr (), m1) \<longrightarrow>
      get_connection m1 a = Some \<lparr>address = a, handle = 0, services = []\<rparr> \<and>
      fst (mock_connect m1 a opts' retries') = Inl (BleConnectionError ''already connected'') \<and>
      (\<forall>a'. a' \<noteq> a \<longrightarrow>
         get_connection m1 a' = get_connection m a' \<and>
         fst (mock_connect m1 a' opts' retries') = fst (mock_connect m a' opts' retries')))"
proof (intro conjI impI allI)
  assume "distinct (map fst (conn_reqs ap))"
  then show "(get_connection ap b = Some cr) = ((b, cr) \<in> set (conn_reqs ap))"
    by (rule get_connection_exact)
next
  assume c: "mock_connect m a opts retries = (Inr (), m1)"
  from mock_connect_success(1) [OF c]
  show "get_connection m1 a = Some \<lparr>address = a, handle = 0, services = []\<rparr>"
    by (simp add: get_connection_def dict_get_dict_set)
  have "dict_contains (conn_reqs m1) a"
    using mock_connect_success(1) [OF c] by (simp add: dict_contains_dict_set)
  from mock_connect_registered [OF this]
  show "fst (mock_connect m1 a opts' retries') = Inl (BleConnectionError ''already connected'')"
    by simp
  fix a' assume "a' \<noteq> a"
  from mock_connect_other [OF c this]
  show "get_connection m1 a' = get_connection m a'"
    and "fst (mock_connect m1 a' opts' retries') = fst (mock_connect m a' opts' retries')"
    by simp_all
qed

text \<open>
  The amended claim at a concrete input: the connected peer and its lower-case variant.
\<close>

theorem C9_exact_match_witness:
  "get_connection discovered_ap peer = Some peer_entry \<and>
   fst (mock_connect MockAccessPoint peer BleConnectOptions 3) = Inr () \<and>
   get_connection connected_mock peer = Some \<lparr>address = peer, handle = 0, services = []\<rparr> \<and>
   fst (mock_connect connected_mock peer BleConnectOptions 3) =
     Inl (BleConnectionError ''already connected'') \<and>
   peer_lower \<noteq> peer \<and>
   get_connection connected_mock peer_lower = get_connection MockAccessPoint peer_lower \<and>
   fst (mock_connect connected_mock peer_lower BleConnectOptions 3) =
     fst (mock_connect MockAccessPoint peer_lower BleConnectOptions 3)"
proof -
  have h1: "distinct (map fst (conn_reqs discovered_ap))"
    by (simp add: discovered_ap_def SilabsAccessPoint_def)
  have h2: "(peer, peer_entry) \<in> set (conn_reqs discovered_ap)"
    by (simp add: discovered_ap_def SilabsAccessPoint_def peer_entry_def)
  have h3: "mock_connect MockAccessPoint peer BleConnectOptions 3 = (Inr (), connected_mock)"
    unfolding connected_mock_def by code_simp
  have h4: "peer_lower \<noteq> peer" by (simp add: peer_lower_def peer_def)
  note T = C9_registry_exact_match [where ap = discovered_ap and b = peer and cr = peer_entry
      and m = MockAccessPoint and a = peer and opts = BleConnectOptions and retries = 3
      and ?m1.0 = connected_mock and opts' = BleConnectOptions and retries' = 3]
  from T h1 h2 have A: "get_connection discovered_ap peer = Some peer_entry" by blast
  from T h3 have B: "get_connection connected_mock peer =
       Some \<lparr>address = peer, handle = 0, services = []\<rparr>"
    and C: "fst (mock_connect connected_mock peer BleConnectOptions 3) =
       Inl (BleConnectionError ''already connected'')"
    and D: "\<forall>a'. a' \<noteq> peer \<longrightarrow>
         get_connection connected_mock a' = get_connection MockAccessPoint a' \<and>
         fst (mock_connect connected_mock a' BleConnectOptions 3) =
           fst (mock_connect MockAccessPoint a' BleConnectOptions 3)" by blast+
  from D h4 have E: "get_connection connected_mock peer_lower = get_connection MockAccessPoint peer_lower"
    and F: "fst (mock_connect connected_mock peer_lower BleConnectOptions 3) =
     fst (mock_connect MockAccessPoint peer_lower BleConnectOptions 3)" by blast+
  have G: "fst (mock_connect MockAccessPoint peer BleConnectOptions 3) = Inr ()"
    by (simp only: h3 fst_conv)
  show ?thesis by (intro conjI A G B C h4 E F)
qed

section \<open>The registry of the radio-chip backend under events\<close>

lemma event_handler_conn_reqs:
  assumes "event_handler env ap e = Inr ap'"
  shows "conn_reqs ap' = conn_reqs (event_callback ap e)"
  using assms
  by (cases e)
     (auto simp: event_handler_def event_callback_def bt_evt_system_boot_callback_def
        bt_evt_connection_closed_callback_def split: sum.splits prod.splits option.splits)

lemma callback_distinct:
  "distinct (map fst (conn_reqs ap)) \<Longrightarrow> distinct (map fst (conn_reqs (event_callback ap e)))"
  by (cases e)
     (auto simp: event_callback_def bt_evt_system_boot_callback_def
        bt_evt_connection_closed_callback_def distinct_dict_pop split: option.splits)

lemma registered_pop_other:
  assumes reg: "registered a h d" and kv: "kv \<in> set d" and hd: "handle (snd kv) \<noteq> h"
  shows "registered a h (dict_pop d (fst kv))"
proof -
  from reg obtain cr where d: "distinct (map fst d)" and m: "map_of d a = Some cr" and h: "handle cr = h"
    by (auto simp: registered_def dict_get_def split: option.splits)
  have "fst kv \<noteq> a"
  proof
    assume "fst kv = a"
    then have "(a, snd kv) \<in> set d" using kv by (metis prod.collapse)
    then have "map_of d a = Some (snd kv)" using d by (rule_tac map_of_is_SomeI) auto
    with m h hd show False by simp
  qed
  then show ?thesis using d m h
    by (simp add: registered_def dict_get_def map_of_dict_pop distinct_dict_pop)
qed

lemma callback_registered:
  assumes "registered a h (conn_reqs ap)" and "\<forall>reason. e \<noteq> bt_evt_connection_closed h reason"
  shows "registered a h (conn_reqs (event_callback ap e))"
proof (cases e)
  case (bt_evt_connection_closed conn reason)
  with assms(2) have ne: "conn \<noteq> h" by auto
  show ?thesis
  proof (cases "find (\<lambda>kv. handle (snd kv) = conn) (conn_reqs ap)")
    case None
    then show ?thesis using assms(1) bt_evt_connection_closed
      by (simp add: event_callback_def bt_evt_connection_closed_callback_def)
  next
    case (Some kv)
    then have "kv \<in> set (conn_reqs ap)" "handle (snd kv) = conn"
      by (auto simp: find_Some_iff)
    with registered_pop_other [OF assms(1), of kv] ne Some bt_evt_connection_closed
    show ?thesis
      by (simp add: event_callback_def bt_evt_connection_closed_callback_def)
  qed
qed (use assms(1) in \<open>simp_all add: event_callback_def bt_evt_system_boot_callback_def\<close>)

lemma event_handler_registered:
  assumes "registered a h (conn_reqs ap)" and "\<forall>reason. e \<noteq> bt_evt_connection_closed h reason"
    and "event_handler env ap e = Inr ap'"
  shows "registered a h (conn_reqs ap')"
  using callback_registered [OF assms(1,2)] event_handler_conn_reqs [OF assms(3)] by simp

lemma connection_closed_unknown_handle:
  assumes "\<forall>kv\<in>set (conn_reqs ap). handle (snd kv) \<noteq> h"
  shows "event_callback ap (bt_evt_connection_closed h reason) = ap"
proof -
  from assms have "find (\<lambda>kv. handle (snd kv) = h) (conn_reqs ap) = None"
    by (auto simp: find_None_iff)
  then show ?thesis
    by (simp add: event_callback_def bt_evt_connection_closed_callback_def)
qed

lemma connection_closed_removes:
  assumes d: "distinct (map fst (conn_reqs ap))"
    and g: "get_connection ap a = Some cr"
    and u: "\<forall>kv\<in>set (conn_reqs ap). handle (snd kv) = handle cr \<longrightarrow> fst kv = a"
  shows "conn_reqs (event_callback ap (bt_evt_connection_closed (handle cr) reason)) =
           dict_pop (conn_reqs ap) a"
    and "get_connection (event_callback ap (bt_evt_connection_closed (handle cr) reason)) a = None"
    and "\<forall>kv\<in>set (conn_reqs (event_callback ap (bt_evt_connection_closed (handle cr) reason))).
           handle (snd kv) \<noteq> handle cr"
proof -
  from g d have m: "(a, cr) \<in> set (conn_reqs ap)"
    by (simp add: get_connection_def dict_get_def)
  then have "\<exists>kv\<in>set (conn_reqs ap). handle (snd kv) = handle cr" by force
  then obtain kv where f: "find (\<lambda>kv. handle (snd kv) = handle cr) (conn_reqs ap) = Some kv"
    by (cases "find (\<lambda>kv. handle (snd kv) = handle cr) (conn_reqs ap)")
       (auto simp: find_None_iff)
  then have "kv \<in> set (conn_reqs ap)" "handle (snd kv) = handle cr"
    by (auto simp: find_Some_iff)
  with u have "fst kv = a" by blast
  with f show 1: "conn_reqs (event_callback ap (bt_evt_connection_closed (handle cr) reason)) =
           dict_pop (conn_reqs ap) a"
    by (simp add: event_callback_def bt_evt_connection_closed_callback_def)
  show "get_connection (event_callback ap (bt_evt_connection_closed (handle cr) reason)) a = None"
    by (simp add: get_connection_def dict_get_def 1 map_of_dict_pop)
  show "\<forall>kv\<in>set (conn_reqs (event_callback ap (bt_evt_connection_closed (handle cr) reason))).
           handle (snd kv) \<noteq> handle cr"
    using u by (auto simp: 1 dict_pop_def)
qed

lemma wait_registered:
  "registered a h (conn_reqs ap) \<Longrightarrow> \<forall>reason. bt_evt_connection_closed h reason \<notin> set evs \<Longrightarrow>
   registered a h (conn_reqs (wait_state (wait env r ap evs))) \<and>
   set (wait_rest (wait env r ap evs)) \<subseteq> set evs"
proof (induction evs arbitrary: ap)
  case Nil
  then show ?case by (simp add: wait_state_def wait_rest_def)
next
  case (Cons e es)
  show ?case
  proof (cases "op_is_set (objects ap ! r)")
    case True
    then show ?thesis using Cons.prems by (simp add: wait_state_def wait_rest_def)
  next
    case notset: False
    show ?thesis
    proof (cases "event_handler env ap e")
      case (Inl err)
      then show ?thesis using Cons.prems notset by (simp add: wait_state_def wait_rest_def)
    next
      case (Inr ap')
      from Cons.prems have "\<forall>reason. e \<noteq> bt_evt_connection_closed h reason" by auto
      from event_handler_registered [OF Cons.prems(1) this Inr]
      have reg': "registered a h (conn_reqs ap')" .
      from Cons.prems have es: "\<forall>reason. bt_evt_connection_closed h reason \<notin> set es" by auto
      from Cons.IH [OF reg' es] reg' Inr notset show ?thesis
        by (auto simp: wait_state_def wait_rest_def)
    qed
  qed
qed

lemma discover_phase_registered:
  assumes "registered a h (conn_reqs ap)" and "\<forall>reason. bt_evt_connection_closed h reason \<notin> set evs"
  shows "registered a h (conn_reqs (fst (snd (discover_phase env r cmd ap evs)))) \<and>
         set (snd (snd (discover_phase env r cmd ap evs))) \<subseteq> set evs"
proof -
  have "registered a h (conn_reqs (issue cmd ap))" using assms(1) by (simp add: issue_def)
  from wait_registered [OF this assms(2), of env r] show ?thesis
    by (auto simp: discover_phase_def wait_state_def wait_rest_def
        split: wait_result.splits option.splits)
qed

lemma characteristics_loop_registered:
  "registered a h (conn_reqs ap) \<Longrightarrow> \<forall>reason. bt_evt_connection_closed h reason \<notin> set evs \<Longrightarrow>
   registered a h (conn_reqs (fst (snd (characteristics_loop env r s n js ap evs)))) \<and>
   set (snd (snd (characteristics_loop env r s n js ap evs))) \<subseteq> set evs"
proof (induction js arbitrary: ap evs)
  case Nil
  then show ?case by simp
next
  case (Cons j js)
  let ?d = "so_characteristics (do_service_objects (discover_at ap r) ! s)"
  show ?case
  proof (cases "length ?d \<noteq> n")
    case True
    then show ?thesis using Cons.prems by (simp add: Let_def)
  next
    case False
    define ap1 where
      "ap1 = update_discover r (\<lambda>op. op\<lparr>do_current_characteristic := Some (snd (?d ! j))\<rparr>) ap"
    define cmd where
      "cmd = discover_descriptors (do_handle (discover_at ap1 r))
               (char_handle (do_characteristic_objects (discover_at ap1 r) ! snd (?d ! j)))"
    obtain out ap2 rest where ph: "discover_phase env r cmd ap1 evs = (out, ap2, rest)"
      by (cases "discover_phase env r cmd ap1 evs") auto
    have r1: "registered a h (conn_reqs ap1)"
      using Cons.prems(1) by (simp add: ap1_def update_discover_def)
    from discover_phase_registered [OF r1 Cons.prems(2), of env r cmd] ph
    have r2: "registered a h (conn_reqs ap2)" "set rest \<subseteq> set evs" by simp_all
    show ?thesis
    proof (cases "out = Returns False")
      case True
      have "characteristics_loop env r s n (j # js) ap evs =
            characteristics_loop env r s n js ap2 rest"
        using False ph True by (simp add: Let_def ap1_def cmd_def)
      moreover have "\<forall>reason. bt_evt_connection_closed h reason \<notin> set rest"
        using r2(2) Cons.prems(2) by auto
      ultimately show ?thesis using Cons.IH [OF r2(1), of rest] r2(2) by auto
    next
      case F2: False
      have "characteristics_loop env r s n (j # js) ap evs = (out, ap2, rest)"
        using False ph F2
        by (auto simp add: Let_def ap1_def cmd_def split: outcome.splits bool.splits)
      then show ?thesis using r2 by simp
    qed
  qed
qed

lemma services_loop_registered:
  "registered a h (conn_reqs ap) \<Longrightarrow> \<forall>reason. bt_evt_connection_closed h reason \<notin> set evs \<Longrightarrow>
   registered a h (conn_reqs (fst (snd (services_loop env r n is ap evs)))) \<and>
   set (snd (snd (services_loop env r n is ap evs))) \<subseteq> set evs"
proof (induction "is" arbitrary: ap evs)
  case Nil
  then show ?case by simp
next
  case (Cons i "is")
  let ?d = "do_services (discover_at ap r)"
  show ?case
  proof (cases "length ?d \<noteq> n")
    case True
    then show ?thesis using Cons.prems by (simp add: Let_def)
  next
    case False
    define s where "s = snd (?d ! i)"
    define cmd where
      "cmd = discover_characteristics (do_handle (discover_at ap r))
               (so_service_handle (do_service_objects (discover_at ap r) ! s))"
    define ap1 where "ap1 = update_discover r (\<lambda>op. op\<lparr>do_current_service := Some s\<rparr>) ap"
    obtain out ap2 rest where ph: "discover_phase env r cmd ap1 evs = (out, ap2, rest)"
      by (cases "discover_phase env r cmd ap1 evs") auto
    have r1: "registered a h (conn_reqs ap1)"
      using Cons.prems(1) by (simp add: ap1_def update_discover_def)
    from discover_phase_registered [OF r1 Cons.prems(2), of env r cmd] ph
    have r2: "registered a h (conn_reqs ap2)" "set rest \<subseteq> set evs" by simp_all
    have nr: "\<forall>reason. bt_evt_connection_closed h reason \<notin> set rest"
      using r2(2) Cons.prems(2) by auto
    show ?thesis
    proof (cases "out = Returns False")
      case True
      define m where "m = length (so_characteristics (do_service_objects (discover_at ap2 r) ! s))"
      obtain out' ap3 rest' where
        cl: "characteristics_loop env r s m [0..<m] ap2 rest = (out', ap3, rest')"
        by (cases "characteristics_loop env r s m [0..<m] ap2 rest") auto
      from characteristics_loop_registered [OF r2(1) nr, of env r s m "[0..<m]"] cl
      have r3: "registered a h (conn_reqs ap3)" "set rest' \<subseteq> set rest" by simp_all
      have nr': "\<forall>reason. bt_evt_connection_closed h reason \<notin> set rest'"
        using r3(2) nr by auto
      show ?thesis
      proof (cases "out' = Returns False")
        case T2: True
        have "services_loop env r n (i # is) ap evs = services_loop env r n is ap3 rest'"
          using False ph True cl T2 by (simp add: Let_def ap1_def cmd_def s_def m_def)
        then show ?thesis using Cons.IH [OF r3(1) nr'] r3(2) r2(2) by auto
      next
        case F3: False
        have "services_loop env r n (i # is) ap evs = (out', ap3, rest')"
          using False ph True cl F3
          by (auto simp add: Let_def ap1_def cmd_def s_def m_def split: outcome.splits bool.splits)
        then show ?thesis using r3 r2(2) by auto
      qed
    next
      case F2: False
      have "services_loop env r n (i # is) ap evs = (out, ap2, rest)"
        using False ph F2
        by (auto simp add: Let_def ap1_def cmd_def s_def split: outcome.splits bool.splits)
      then show ?thesis using r2 by simp
    qed
  qed
qed

lemma DiscoverOperation_run_registered:
  assumes "registered a h (conn_reqs ap)" and "\<forall>reason. bt_evt_connection_closed h reason \<notin> set evs"
  shows "registered a h (conn_reqs (fst (snd (DiscoverOperation_run env r ap evs)))) \<and>
         set (snd (snd (DiscoverOperation_run env r ap evs))) \<subseteq> set evs"
proof -
  define cmd where "cmd = discover_primary_services (do_handle (discover_at ap r))"
  obtain out ap1 rest where ph: "discover_phase env r cmd ap evs = (out, ap1, rest)"
    by (cases "discover_phase env r cmd ap evs") auto
  from discover_phase_registered [OF assms, of env r cmd] ph
  have r1: "registered a h (conn_reqs ap1)" "set rest \<subseteq> set evs" by simp_all
  have nr: "\<forall>reason. bt_evt_connection_closed h reason \<notin> set rest"
    using r1(2) assms(2) by auto
  define n where "n = length (do_services (discover_at ap1 r))"
  obtain out' ap2 rest' where sl: "services_loop env r n [0..<n] ap1 rest = (out', ap2, rest')"
    by (cases "services_loop env r n [0..<n] ap1 rest") auto
  from services_loop_registered [OF r1(1) nr, of env r n "[0..<n]"] sl
  have r2: "registered a h (conn_reqs ap2)" "set rest' \<subseteq> set rest" by simp_all
  show ?thesis
    using ph sl r1 r2
    by (auto simp: DiscoverOperation_run_def cmd_def [symmetric] n_def [symmetric] Let_def
        update_discover_def split: outcome.splits bool.splits)
qed

lemma registered_dict_set:
  "registered a h d \<Longrightarrow> (k = a \<Longrightarrow> handle v = h) \<Longrightarrow> registered a h (dict_set d k v)"
  by (auto simp: registered_def dict_get_def map_of_dict_set distinct_dict_set split: option.splits)

lemma silabs_discover_registered:
  assumes "registered a h (conn_reqs ap)" and "\<forall>reason. bt_evt_connection_closed h reason \<notin> set evs"
  shows "registered a h (conn_reqs (fst (snd (silabs_discover env ap b opts retries evs))))"
proof (cases "dict_get (conn_reqs ap) b")
  case None
  then show ?thesis using assms(1) by (simp add: silabs_discover_def)
next
  case (Some cr)
  define ap1 where "ap1 = snd (append_operation
      (Discover (DiscoverOperation (handle cr) retries (requested opts))) ap)"
  define r where "r = length (objects ap)"
  have r1: "registered a h (conn_reqs ap1)"
    using assms(1) by (simp add: ap1_def append_operation_def)
  obtain out ap2 rest where run: "DiscoverOperation_run env r ap1 evs = (out, ap2, rest)"
    by (cases "DiscoverOperation_run env r ap1 evs") auto
  from DiscoverOperation_run_registered [OF r1 assms(2), of env r] run
  have r2: "registered a h (conn_reqs ap2)" by simp
  have "registered a h (dict_set (conn_reqs ap2) b (cr'\<lparr>services := sv\<rparr>))"
    if "dict_get (conn_reqs ap2) b = Some cr'" for cr' sv
    using r2 that by (intro registered_dict_set) (auto simp: registered_def split: option.splits)
  then show ?thesis
    using Some run r2
    by (auto simp: silabs_discover_def append_operation_def ap1_def r_def Let_def
        split: outcome.splits option.splits)
qed

lemma deliver_registered:
  "registered a h (conn_reqs ap) \<Longrightarrow> \<forall>reason. bt_evt_connection_closed h reason \<notin> set evs \<Longrightarrow>
   deliver env ap evs = Inr ap' \<Longrightarrow> registered a h (conn_reqs ap')"
proof (induction evs arbitrary: ap)
  case Nil
  then show ?case by simp
next
  case (Cons e es)
  from Cons.prems(3) obtain ap1 where eh: "event_handler env ap e = Inr ap1"
    and d: "deliver env ap1 es = Inr ap'"
    by (auto split: sum.splits)
  from Cons.prems(2) have "\<forall>reason. e \<noteq> bt_evt_connection_closed h reason" by auto
  from event_handler_registered [OF Cons.prems(1) this eh]
  have "registered a h (conn_reqs ap1)" .
  moreover from Cons.prems(2) have "\<forall>reason. bt_evt_connection_closed h reason \<notin> set es" by auto
  ultimately show ?case using Cons.IH d by blast
qed

lemma run_missing_registered:
  assumes "registered a h (conn_reqs ap)" and "\<forall>reason. bt_evt_connection_closed h reason \<notin> set evs"
    and "run_missing env cls ap evs = Inr ap'"
  shows "registered a h (conn_reqs ap')"
proof -
  have "registered a h (conn_reqs (issue (Missing_call cls ''run'') ap))"
    using assms(1) by (simp add: issue_def)
  from deliver_registered [OF this assms(2)] assms(3) show ?thesis
    by (simp add: run_missing_def)
qed

lemma wait_result_registered:
  assumes "wait env r ap1 evs = w" and "conn_reqs ap1 = conn_reqs ap"
    and "registered a h (conn_reqs ap)"
    and "\<forall>reason. bt_evt_connection_closed h reason \<notin> set evs"
  shows "registered a h (conn_reqs (wait_state w))"
  using wait_registered [of a h ap1 evs env r] assms by auto

lemma silabs_read_registered:
  assumes "registered a h (conn_reqs ap)" and "\<forall>reason. bt_evt_connection_closed h reason \<notin> set evs"
  shows "registered a h (conn_reqs (fst (snd (silabs_read env ap b s c evs))))"
proof (cases "dict_get (conn_reqs ap) b")
  case None
  then show ?thesis using assms(1) by (simp add: silabs_read_def)
next
  case (Some cr)
  show ?thesis
  proof (cases "dict_get (services cr) s")
    case None
    then show ?thesis using assms(1) Some by (simp add: silabs_read_def)
  next
    case S2: (Some svc)
    show ?thesis
    proof (cases "dict_get (characteristics svc) c")
      case None
      then show ?thesis using assms(1) Some S2 by (simp add: silabs_read_def)
    next
      case S3: (Some chr)
      define w where "w = wait env (length (objects ap))
        (issue (read_characteristic_value (handle cr) (char_handle chr))
           (snd (append_operation (Read (ReadOperation (handle cr) (char_handle chr))) ap))) evs"
      have "registered a h (conn_reqs (wait_state w))"
        by (rule wait_result_registered [OF w_def [symmetric] _ assms])
           (simp add: issue_def append_operation_def)
      moreover have "fst (snd (silabs_read env ap b s c evs)) = wait_state w"
        using Some S2 S3
        by (simp add: silabs_read_def Let_def w_def append_operation_def wait_state_def
            split: wait_result.splits)
      ultimately show ?thesis by simp
    qed
  qed
qed

lemma silabs_write_registered:
  assumes "registered a h (conn_reqs ap)" and "\<forall>reason. bt_evt_connection_closed h reason \<notin> set evs"
  shows "registered a h (conn_reqs (fst (snd (silabs_write env ap b s c v evs))))"
proof (cases "dict_get (conn_reqs ap) b")
  case None
  then show ?thesis using assms(1) by (simp add: silabs_write_def)
next
  case (Some cr)
  show ?thesis
  proof (cases "dict_get (services cr) s")
    case None
    then show ?thesis using assms(1) Some by (simp add: silabs_write_def)
  next
    case S2: (Some svc)
    show ?thesis
    proof (cases "dict_get (characteristics svc) c")
      case None
      then show ?thesis using assms(1) Some S2 by (simp add: silabs_write_def)
    next
      case S3: (Some chr)
      define w where "w = wait env (length (objects ap))
        (issue (write_characteristic_value (handle cr) (char_handle chr) v)
           (snd (append_operation (Write (WriteOperation (handle cr) (char_handle chr) v)) ap))) evs"
      have "registered a h (conn_reqs (wait_state w))"
        by (rule wait_result_registered [OF w_def [symmetric] _ assms])
           (simp add: issue_def append_operation_def)
      moreover have "fst (snd (silabs_write env ap b s c v evs)) = wait_state w"
        using Some S2 S3
        by (simp add: silabs_write_def Let_def w_def append_operation_def wait_state_def
            split: wait_result.splits)
      ultimately show ?thesis by simp
    qed
  qed
qed

lemma append_operation_conn_reqs [simp]: "conn_reqs (snd (append_operation op ap)) = conn_reqs ap"
  by (simp add: append_operation_def)

lemma missing_call_registered:
  assumes "run_missing env cls ap1 evs = Inr ap'" and "conn_reqs ap1 = conn_reqs ap"
    and "registered a h (conn_reqs ap)"
    and "\<forall>reason. bt_evt_connection_closed h reason \<notin> set evs"
  shows "registered a h (conn_reqs ap')"
  by (rule run_missing_registered [OF _ assms(4) assms(1)]) (use assms in simp)

lemma silabs_subscribe_registered:
  assumes "registered a h (conn_reqs ap)" and "\<forall>reason. bt_evt_connection_closed h reason \<notin> set evs"
  shows "registered a h (conn_reqs (fst (snd (silabs_subscribe env ap b s c evs))))"
  using assms(1)
  by (auto simp: silabs_subscribe_def Let_def append_operation_def
      split: option.splits sum.splits intro: missing_call_registered [OF _ _ assms])

lemma silabs_disconnect_registered:
  assumes "registered a h (conn_reqs ap)" and "\<forall>reason. bt_evt_connection_closed h reason \<notin> set evs"
  shows "registered a h (conn_reqs (fst (snd (silabs_disconnect env ap b evs))))"
  using assms(1)
  by (auto simp: silabs_disconnect_def Let_def append_operation_def
      split: option.splits sum.splits intro: missing_call_registered [OF _ _ assms])

lemma silabs_start_scan_registered:
  assumes "registered a h (conn_reqs ap)" and "\<forall>reason. bt_evt_connection_closed h reason \<notin> set evs"
  shows "registered a h (conn_reqs (fst (snd (silabs_start_scan env ap evs))))"
  using assms(1)
  by (auto simp: silabs_start_scan_def Let_def append_operation_def
      split: option.splits sum.splits intro: missing_call_registered [OF _ _ assms])

lemma silabs_unsubscribe_registered:
  assumes "registered a h (conn_reqs ap)"
  shows "registered a h (conn_reqs (snd (silabs_unsubscribe env ap b s c)))"
  using assms
  by (auto simp: silabs_unsubscribe_def disable_notification_def issue_def
      split: option.splits sum.splits operation.splits)

lemma registered_contains: "registered a h d \<Longrightarrow> dict_contains d a"
  by (auto simp: registered_def dict_contains_def dict_get_def split: option.splits)

lemma silabs_connect_rejected:
  assumes "registered a h (conn_reqs ap)"
  shows "\<exists>msg. silabs_connect env ap a opts retries evs = (Raises (BleConnectionError msg), ap, evs)"
  using registered_contains [OF assms] by (simp add: silabs_connect_def)

lemma silabs_connect_registered:
  assumes "registered a h (conn_reqs ap)" and "\<forall>reason. bt_evt_connection_closed h reason \<notin> set evs"
  shows "registered a h (conn_reqs (fst (snd (silabs_connect env ap b opts retries evs))))"
proof (cases "b = a")
  case True
  with silabs_connect_rejected [OF assms(1), of env opts retries evs] assms(1)
  show ?thesis by auto
next
  case False
  then show ?thesis
    using assms(1)
    by (auto simp: silabs_connect_def Let_def append_operation_def
        split: option.splits sum.splits
        intro!: registered_dict_set intro: missing_call_registered [OF _ _ assms])
qed

lemma silabs_step_registered:
  assumes "registered a h (conn_reqs ap)"
    and "\<forall>reason. bt_evt_connection_closed h reason \<notin> set (snd step)"
  shows "registered a h (conn_reqs (silabs_step env ap step))"
proof (cases step)
  case (Pair c evs)
  with assms(2) have ne: "\<forall>reason. bt_evt_connection_closed h reason \<notin> set evs" by simp
  show ?thesis
  proof (cases c)
    case No_call
    then show ?thesis using Pair assms(1) deliver_registered [OF assms(1) ne]
      by (auto split: sum.splits)
  qed (use Pair assms(1) ne in \<open>simp_all add: silabs_connect_registered silabs_discover_registered
      silabs_read_registered silabs_write_registered silabs_subscribe_registered
      silabs_unsubscribe_registered silabs_disconnect_registered silabs_start_scan_registered\<close>)
qed

lemma silabs_run_registered:
  "registered a h (conn_reqs ap) \<Longrightarrow>
   \<forall>step\<in>set steps. \<forall>reason. bt_evt_connection_closed h reason \<notin> set (snd step) \<Longrightarrow>
   registered a h (conn_reqs (foldl (silabs_step env) ap steps))"
proof (induction steps arbitrary: ap)
  case Nil
  then show ?case by simp
next
  case (Cons st steps)
  from Cons.prems have "registered a h (conn_reqs (silabs_step env ap st))"
    by (intro silabs_step_registered) auto
  with Cons show ?case by simp
qed

lemma event_handler_distinct:
  "distinct (map fst (conn_reqs ap)) \<Longrightarrow> event_handler env ap e = Inr ap' \<Longrightarrow>
   distinct (map fst (conn_reqs ap'))"
  using callback_distinct [of ap e] event_handler_conn_reqs [of env ap e ap'] by simp

lemma deliver_distinct:
  "distinct (map fst (conn_reqs ap)) \<Longrightarrow> deliver env ap evs = Inr ap' \<Longrightarrow>
   distinct (map fst (conn_reqs ap'))"
proof (induction evs arbitrary: ap)
  case Nil
  then show ?case by simp
next
  case (Cons e es)
  then show ?case by (auto split: sum.splits dest: event_handler_distinct)
qed

lemma silabs_connect_success:
  assumes "silabs_connect env ap a opts retries evs = (Returns (), ap1, rest)"
    and "distinct (map fst (conn_reqs ap))"
  shows "\<exists>h. get_connection ap1 a = Some \<lparr>address = a, handle = h, services = []\<rparr> \<and>
             registered a h (conn_reqs ap1)"
proof -
  define ap0 where "ap0 = snd (append_operation
      (new_missing env ConnectOperation [Arg_str a, Arg_int retries]) ap)"
  from assms(1) obtain ap2 h where
    run: "run_missing env ConnectOperation ap0 evs = Inr ap2"
    and ap1: "ap1 = ap2\<lparr>conn_reqs := dict_set (conn_reqs ap2) a
                           \<lparr>address = a, handle = h, services = []\<rparr>\<rparr>"
    by (auto simp: silabs_connect_def Let_def ap0_def append_operation_def
        split: if_splits sum.splits option.splits)
  have "distinct (map fst (conn_reqs (issue (Missing_call ConnectOperation ''run'') ap0)))"
    using assms(2) by (simp add: ap0_def issue_def)
  from deliver_distinct [OF this] run have "distinct (map fst (conn_reqs ap2))"
    by (simp add: run_missing_def)
  then show ?thesis unfolding ap1
    by (auto simp: get_connection_def registered_def dict_get_def map_of_dict_set distinct_dict_set)
qed

lemma silabs_not_connected:
  assumes "get_connection ap a = None"
  shows "silabs_discover env ap a opts retries evs = (Raises (BleDiscoveryError ''not connected''), ap, evs)"
    and "silabs_read env ap a s c evs = (Raises (BleReadError ''not connected''), ap, evs)"
    and "silabs_write env ap a s c v evs = (Raises (BleWriteError ''not connected''), ap, evs)"
    and "silabs_subscribe env ap a s c evs = (Raises (BleSubscribeError ''not connected''), ap, evs)"
    and "silabs_unsubscribe env ap a s c = (Raises (BleUnsubscribeError ''not connected''), ap)"
    and "silabs_disconnect env ap a evs = (Raises (KeyError a), ap, evs)"
  using assms
  by (simp_all add: get_connection_def silabs_discover_def silabs_read_def silabs_write_def
      silabs_subscribe_def silabs_unsubscribe_def silabs_disconnect_def)

text \<open>
  Claim C5. After a successful connect(A), getConnection(A) is a connection registered
  with a handle and an empty service map, and every later connect(A) fails with
  ConnectionError until a disconnect(A) or a link loss for A. Mock backend: the connection
  has handle 0, and after any sequence of calls without disconnect(A) (the mock has no link
  loss) connect(A) raises "already connected". Radio-chip backend, for a registry that is a
  dictionary: the connection has the handle \<open>h\<close> of the connect operation, and after any
  sequence of steps (calls with their events, or events alone) in which no link-closed
  event for \<open>h\<close> is delivered, connect(A) raises ConnectionError. On this backend
  disconnect(A) removes nothing by itself: the entry goes when the link-closed event of the
  teardown arrives, so the condition on the events covers both ways of ending the
  connection.
\<close>

theorem C5_connect_registers_and_excludes:
  "(mock_connect m a opts retries = (Inr (), m1) \<longrightarrow>
      get_connection m1 a = Some \<lparr>address = a, handle = 0, services = []\<rparr> \<and>
      (\<forall>calls. Mock_disconnect a \<notin> set calls \<longrightarrow>
         fst (mock_connect (foldl mock_step m1 calls) a opts' retries') =
           Inl (BleConnectionError ''already connected''))) \<and>
   (silabs_connect env ap a opts retries evs = (Returns (), ap1, rest) \<and>
    distinct (map fst (conn_reqs ap)) \<longrightarrow>
      (\<exists>h. get_connection ap1 a = Some \<lparr>address = a, handle = h, services = []\<rparr> \<and>
         (\<forall>steps.
            (\<forall>step\<in>set steps. \<forall>reason. bt_evt_connection_closed h reason \<notin> set (snd step)) \<longrightarrow>
            (\<exists>msg. fst (silabs_connect env (foldl (silabs_step env) ap1 steps) a opts' retries' evs') =
               Raises (BleConnectionError msg)))))"
proof (intro conjI impI allI)
  assume c: "mock_connect m a opts retries = (Inr (), m1)"
  from mock_connect_success(1) [OF c]
  show "get_connection m1 a = Some \<lparr>address = a, handle = 0, services = []\<rparr>"
    by (simp add: get_connection_def dict_get_dict_set)
  fix calls
  assume "Mock_disconnect a \<notin> set calls"
  moreover have "dict_contains (conn_reqs m1) a"
    using mock_connect_success(1) [OF c] by (simp add: dict_contains_dict_set)
  ultimately have "dict_contains (conn_reqs (foldl mock_step m1 calls)) a"
    by (rule mock_run_keeps_connection [rotated])
  from mock_connect_registered [OF this]
  show "fst (mock_connect (foldl mock_step m1 calls) a opts' retries') =
          Inl (BleConnectionError ''already connected'')" by simp
next
  assume "silabs_connect env ap a opts retries evs = (Returns (), ap1, rest) \<and>
    distinct (map fst (conn_reqs ap))"
  then obtain h where g: "get_connection ap1 a = Some \<lparr>address = a, handle = h, services = []\<rparr>"
    and reg: "registered a h (conn_reqs ap1)"
    using silabs_connect_success by blast
  have "\<exists>msg. fst (silabs_connect env (foldl (silabs_step env) ap1 steps) a opts' retries' evs') =
               Raises (BleConnectionError msg)"
    if "\<forall>step\<in>set steps. \<forall>reason. bt_evt_connection_closed h reason \<notin> set (snd step)" for steps
  proof -
    from silabs_run_registered [OF reg that]
    have "registered a h (conn_reqs (foldl (silabs_step env) ap1 steps))" .
    from silabs_connect_rejected [OF this, of env opts' retries' evs'] show ?thesis by auto
  qed
  with g show "\<exists>h. get_connection ap1 a = Some \<lparr>address = a, handle = h, services = []\<rparr> \<and>
         (\<forall>steps.
            (\<forall>step\<in>set steps. \<forall>reason. bt_evt_connection_closed h reason \<notin> set (snd step)) \<longrightarrow>
            (\<exists>msg. fst (silabs_connect env (foldl (silabs_step env) ap1 steps) a opts' retries' evs') =
               Raises (BleConnectionError msg)))" by blast
qed

text \<open>
  Claim C5 at concrete inputs: the mock after discover, subscribe and the connect and
  disconnect of another peer; the radio-chip backend after a discovery, a read and stray
  events that close another connection.
\<close>

theorem C5_connect_witness:
  "fst (mock_connect MockAccessPoint peer BleConnectOptions 3) = Inr () \<and>
   get_connection (snd (mock_connect MockAccessPoint peer BleConnectOptions 3)) peer =
     Some \<lparr>address = peer, handle = 0, services = []\<rparr> \<and>
   fst (mock_connect (foldl mock_step (snd (mock_connect MockAccessPoint peer BleConnectOptions 3))
          mock_calls) peer BleConnectOptions 3) = Inl (BleConnectionError ''already connected'') \<and>
   fst (silabs_connect sample_env SilabsAccessPoint peer BleConnectOptions 3 opened) = Returns () \<and>
   get_connection (fst (snd (silabs_connect sample_env SilabsAccessPoint peer BleConnectOptions 3
     opened))) peer = Some \<lparr>address = peer, handle = 1, services = []\<rparr> \<and>
   (\<exists>msg. fst (silabs_connect sample_env
       (foldl (silabs_step sample_env)
          (fst (snd (silabs_connect sample_env SilabsAccessPoint peer BleConnectOptions 3 opened)))
          silabs_steps) peer BleConnectOptions 3 []) = Raises (BleConnectionError msg))"
proof -
  let ?m1 = "snd (mock_connect MockAccessPoint peer BleConnectOptions 3)"
  let ?ap1 = "fst (snd (silabs_connect sample_env SilabsAccessPoint peer BleConnectOptions 3 opened))"
  have h1: "mock_connect MockAccessPoint peer BleConnectOptions 3 = (Inr (), ?m1)"
    by code_simp
  have h2: "silabs_connect sample_env SilabsAccessPoint peer BleConnectOptions 3 opened =
      (Returns (), ?ap1, [])"
    by code_simp
  have h3: "distinct (map fst (conn_reqs SilabsAccessPoint))"
    by (simp add: SilabsAccessPoint_def)
  have h4: "Mock_disconnect peer \<notin> set mock_calls"
    by (simp add: mock_calls_def peer_def)
  have h5: "\<forall>step\<in>set silabs_steps. \<forall>reason. bt_evt_connection_closed 1 reason \<notin> set (snd step)"
    by (simp add: silabs_steps_def complete_walk_def)
  have h6: "get_connection ?ap1 peer = Some \<lparr>address = peer, handle = 1, services = []\<rparr>"
    by code_simp
  note T = C5_connect_registers_and_excludes [where m = MockAccessPoint and a = peer
      and opts = BleConnectOptions and retries = 3 and ?m1.0 = ?m1 and opts' = BleConnectOptions
      and retries' = 3 and env = sample_env and ap = SilabsAccessPoint and evs = opened
      and ?ap1.0 = ?ap1 and rest = "[]" and evs' = "[]"]
  from T h1 have A: "get_connection ?m1 peer = Some \<lparr>address = peer, handle = 0, services = []\<rparr>"
    and B: "\<forall>calls. Mock_disconnect peer \<notin> set calls \<longrightarrow>
         fst (mock_connect (foldl mock_step ?m1 calls) peer BleConnectOptions 3) =
           Inl (BleConnectionError ''already connected'')" by blast+
  from T h2 h3 obtain h where
    C: "get_connection ?ap1 peer = Some \<lparr>address = peer, handle = h, services = []\<rparr>"
    and D: "\<forall>steps.
            (\<forall>step\<in>set steps. \<forall>reason. bt_evt_connection_closed h reason \<notin> set (snd step)) \<longrightarrow>
            (\<exists>msg. fst (silabs_connect sample_env (foldl (silabs_step sample_env) ?ap1 steps) peer
               BleConnectOptions 3 []) = Raises (BleConnectionError msg))" by blast
  from C h6 have "h = 1" by simp
  with D h5 have E: "\<exists>msg. fst (silabs_connect sample_env (foldl (silabs_step sample_env) ?ap1
      silabs_steps) peer BleConnectOptions 3 []) = Raises (BleConnectionError msg)" by blast
  from B h4 have F: "fst (mock_connect (foldl mock_step ?m1 mock_calls) peer BleConnectOptions 3) =
           Inl (BleConnectionError ''already connected'')" by blast
  have G: "fst (mock_connect MockAccessPoint peer BleConnectOptions 3) = Inr ()"
    and H: "fst (silabs_connect sample_env SilabsAccessPoint peer BleConnectOptions 3 opened) = Returns ()"
    by (simp_all only: h1 [THEN arg_cong [where f = fst]] h2 [THEN arg_cong [where f = fst]] fst_conv)
  show ?thesis by (intro conjI G A F H h6 E)
qed

section \<open>What a returning read or write has received\<close>

lemma offer_keeps:
  assumes step: "\<And>op op'. Q op \<Longrightarrow> handle_event env op e = Inr op' \<Longrightarrow> Q op'"
  shows "Q (objs ! r) \<Longrightarrow> offer env e rs objs rm = Inr (objs', rm') \<Longrightarrow> Q (objs' ! r)"
proof (induction rs arbitrary: objs rm)
  case Nil
  then show ?case by simp
next
  case (Cons r0 rs)
  from Cons.prems(2) obtain op' where h: "handle_event env (objs ! r0) e = Inr op'"
    and o: "offer env e rs (objs[r0 := op'])
              (if op_is_done op' then rm @ [r0] else rm) = Inr (objs', rm')"
    by (auto split: sum.splits)
  have "Q ((objs[r0 := op']) ! r)"
  proof (cases "r0 = r")
    case True
    show ?thesis
    proof (cases "r < length objs")
      case True
      with \<open>r0 = r\<close> step [OF Cons.prems(1)] h show ?thesis by simp
    next
      case False
      with \<open>r0 = r\<close> Cons.prems(1) show ?thesis by (simp add: list_update_beyond)
    qed
  next
    case False
    with Cons.prems(1) show ?thesis by simp
  qed
  from Cons.IH [OF this o] show ?case .
qed

lemma event_handler_keeps:
  assumes "\<And>op op'. Q op \<Longrightarrow> handle_event env op e = Inr op' \<Longrightarrow> Q op'"
    and "Q (objects ap ! r)" and "event_handler env ap e = Inr ap'"
  shows "Q (objects ap' ! r)"
proof -
  from assms(3) obtain objs rm where o: "offer env e (operations ap) (objects ap) [] = Inr (objs, rm)"
    and ap': "objects ap' = objs"
    by (cases e)
       (auto simp: event_handler_def event_callback_def bt_evt_system_boot_callback_def
          bt_evt_connection_closed_callback_def split: sum.splits prod.splits option.splits)
  from offer_keeps [of Q env e, OF assms(1) assms(2) o] ap' show ?thesis by simp
qed

lemma wait_Woken_keeps:
  assumes step: "\<And>op op' e. e \<in> S \<Longrightarrow> Q op \<Longrightarrow> handle_event env op e = Inr op' \<Longrightarrow> Q op'"
    and pulses: "\<And>op. Q op \<Longrightarrow> op_pulses op = 0"
  shows "Q (objects ap ! r) \<Longrightarrow> set evs \<subseteq> S \<Longrightarrow> wait env r ap evs = Woken ap' rest \<Longrightarrow>
         Q (objects ap' ! r) \<and> op_is_set (objects ap' ! r)"
proof (induction evs arbitrary: ap)
  case Nil
  then show ?case by (auto split: if_splits)
next
  case (Cons e es)
  show ?case
  proof (cases "op_is_set (objects ap ! r)")
    case True
    with Cons.prems show ?thesis by auto
  next
    case notset: False
    with Cons.prems(3) obtain ap1 where eh: "event_handler env ap e = Inr ap1"
      by (auto split: sum.splits)
    have e: "e \<in> S" using Cons.prems(2) by simp
    have q1: "Q (objects ap1 ! r)"
      by (rule event_handler_keeps [of Q env e, OF step [OF e] Cons.prems(1) eh])
    have p: "op_pulses (objects ap ! r) = 0" "op_pulses (objects ap1 ! r) = 0"
      using pulses Cons.prems(1) q1 by auto
    show ?thesis
    proof (cases "op_is_set (objects ap1 ! r)")
      case True
      with Cons.prems(3) notset eh q1 show ?thesis by auto
    next
      case False
      with Cons.prems(3) notset eh p have "wait env r ap1 es = Woken ap' rest" by simp
      from Cons.IH [OF q1 _ this] Cons.prems(2) show ?thesis by simp
    qed
  qed
qed

lemma wait_Woken_prefix:
  "wait env r ap evs = Woken ap' rest \<Longrightarrow>
   \<exists>consumed. evs = consumed @ rest \<and> wait env r ap consumed = Woken ap' []"
proof (induction evs arbitrary: ap)
  case Nil
  then show ?case by (auto split: if_splits)
next
  case (Cons e es)
  show ?case
  proof (cases "op_is_set (objects ap ! r)")
    case True
    with Cons.prems have "ap' = ap" "rest = e # es" by auto
    with True show ?thesis by (intro exI [of _ "[]"]) simp
  next
    case notset: False
    with Cons.prems obtain ap1 where eh: "event_handler env ap e = Inr ap1"
      by (auto split: sum.splits)
    show ?thesis
    proof (cases "op_is_set (objects ap1 ! r) \<or> op_pulses (objects ap ! r) < op_pulses (objects ap1 ! r)")
      case True
      with Cons.prems notset eh have "ap' = ap1" "rest = es" by auto
      with True notset eh show ?thesis by (intro exI [of _ "[e]"]) auto
    next
      case False
      with Cons.prems notset eh have "wait env r ap1 es = Woken ap' rest" by auto
      from Cons.IH [OF this] obtain consumed where
        "es = consumed @ rest" "wait env r ap1 consumed = Woken ap' []" by blast
      with False notset eh show ?thesis by (intro exI [of _ "e # consumed"]) auto
    qed
  qed
qed

lemma write_acknowledged_step:
  assumes "e \<in> S" and "write_acknowledged S h op" and "handle_event env op e = Inr op'"
  shows "write_acknowledged S h op'"
  using assms
  by (cases e; cases op)
     (auto simp: write_acknowledged_def handle_event_def split: if_splits)

lemma read_answered_step:
  assumes "e \<in> S" and "read_answered S (ATT_OPCODE_READ_RESPONSE env) h c op"
    and "handle_event env op e = Inr op'"
  shows "read_answered S (ATT_OPCODE_READ_RESPONSE env) h c op'"
  using assms
  by (cases e; cases op)
     (auto simp: read_answered_def handle_event_def split: if_splits option.splits)

lemma write_acknowledged_pulses: "write_acknowledged S h op \<Longrightarrow> op_pulses op = 0"
  by (cases op) (auto simp: write_acknowledged_def op_pulses_def)

lemma read_answered_pulses: "read_answered S opc h c op \<Longrightarrow> op_pulses op = 0"
  by (cases op) (auto simp: read_answered_def op_pulses_def)

lemma silabs_write_Returns:
  assumes "silabs_write env ap a s c v evs = (Returns resp, ap', rest)"
  shows "wr_success resp \<and>
         (\<exists>cr consumed res. get_connection ap a = Some cr \<and> evs = consumed @ rest \<and>
            bt_evt_gatt_procedure_completed (handle cr) res \<in> set consumed)"
proof -
  from assms obtain cr svc chr where cr: "dict_get (conn_reqs ap) a = Some cr"
    and svc: "dict_get (services cr) s = Some svc"
    and chr: "dict_get (characteristics svc) c = Some chr"
    by (auto simp: silabs_write_def split: option.splits)
  define r where "r = length (objects ap)"
  define ap2 where "ap2 = issue (write_characteristic_value (handle cr) (char_handle chr) v)
     (snd (append_operation (Write (WriteOperation (handle cr) (char_handle chr) v)) ap))"
  from assms cr svc chr have w: "wait env r ap2 evs = Woken ap' rest" and s: "wr_success resp"
    by (auto simp: silabs_write_def Let_def append_operation_def r_def ap2_def
        split: wait_result.splits)
  from wait_Woken_prefix [OF w] obtain consumed where
    c: "evs = consumed @ rest" and wc: "wait env r ap2 consumed = Woken ap' []" by blast
  have q0: "write_acknowledged (set consumed) (handle cr) (objects ap2 ! r)"
    by (simp add: ap2_def r_def issue_def append_operation_def write_acknowledged_def
        WriteOperation_def)
  from wait_Woken_keeps [of "set consumed" "write_acknowledged (set consumed) (handle cr)" env,
      OF write_acknowledged_step write_acknowledged_pulses q0 subset_refl wc]
  have "write_acknowledged (set consumed) (handle cr) (objects ap' ! r)"
    and "op_is_set (objects ap' ! r)" by auto
  then obtain res where "bt_evt_gatt_procedure_completed (handle cr) res \<in> set consumed"
    by (cases "objects ap' ! r") (auto simp: write_acknowledged_def op_is_set_def)
  with cr c s show ?thesis by (auto simp: get_connection_def)
qed

lemma bluez_write_never_returns:
  "bluez_write connected parsed write_gatt_char a s c \<noteq> Inr resp"
  by (auto simp: bluez_write_def WriteResponse_def split: sum.splits)

text \<open>
  What does hold for \<^verbatim>\<open>write\<close>. Radio-chip backend: when \<^verbatim>\<open>write\<close> returns, its response
  has \<open>success = True\<close> and among the events consumed by the call there is a
  procedure-completed event for the connection handle of A; when no such event is
  delivered, the call does not return a response at all (it stays blocked in \<^verbatim>\<open>wait()\<close>).
  The event is matched by its connection handle only, and its result code is not
  inspected. Host-stack backend: \<^verbatim>\<open>write\<close> never returns a response (the constructor call
  of the response lacks two required fields, and the resulting exception becomes a
  \<^verbatim>\<open>BleWriteError\<close>).
\<close>

lemma silabs_write_needs_completion_event:
  "(silabs_write env ap a s c v evs = (Returns resp, ap', rest) \<longrightarrow>
      wr_success resp \<and>
      (\<exists>cr consumed res. get_connection ap a = Some cr \<and> evs = consumed @ rest \<and>
         bt_evt_gatt_procedure_completed (handle cr) res \<in> set consumed)) \<and>
   (get_connection ap a = Some cr \<and>
    (\<forall>res. bt_evt_gatt_procedure_completed (handle cr) res \<notin> set evs) \<longrightarrow>
      fst (silabs_write env ap a s c v evs) \<noteq> Returns resp) \<and>
   bluez_write connected parsed write_gatt_char a s c \<noteq> Inr resp"
proof (intro conjI impI)
  assume "silabs_write env ap a s c v evs = (Returns resp, ap', rest)"
  from silabs_write_Returns [OF this]
  show "wr_success resp"
    and "\<exists>cr consumed res. get_connection ap a = Some cr \<and> evs = consumed @ rest \<and>
         bt_evt_gatt_procedure_completed (handle cr) res \<in> set consumed" by auto
next
  assume h: "get_connection ap a = Some cr \<and>
    (\<forall>res. bt_evt_gatt_procedure_completed (handle cr) res \<notin> set evs)"
  show "fst (silabs_write env ap a s c v evs) \<noteq> Returns resp"
  proof
    assume "fst (silabs_write env ap a s c v evs) = Returns resp"
    then obtain ap' rest where "silabs_write env ap a s c v evs = (Returns resp, ap', rest)"
      by (cases "silabs_write env ap a s c v evs") auto
    from silabs_write_Returns [OF this] h show False by auto
  qed
next
  show "bluez_write connected parsed write_gatt_char a s c \<noteq> Inr resp"
    by (rule bluez_write_never_returns)
qed

text \<open>
  At concrete inputs: a write that receives a completion event returns, the same write
  with no event blocks.
\<close>

lemma silabs_write_completion_example:
  "fst (silabs_write sample_env discovered_ap peer ''180d'' ''2a37'' [0x01] completed) =
     Returns \<lparr>wr_address = peer, wr_service_uuid = ''180d'', wr_char_uuid = ''2a37'',
              wr_value = Some [0x01], wr_success = True\<rparr> \<and>
   (\<exists>consumed res. completed =
        consumed @ snd (snd (silabs_write sample_env discovered_ap peer ''180d'' ''2a37'' [0x01] completed)) \<and>
      bt_evt_gatt_procedure_completed 1 res \<in> set consumed) \<and>
   fst (silabs_write sample_env discovered_ap peer ''180d'' ''2a37'' [0x01] []) \<noteq>
     Returns \<lparr>wr_address = peer, wr_service_uuid = ''180d'', wr_char_uuid = ''2a37'',
              wr_value = Some [0x01], wr_success = True\<rparr> \<and>
   fst (silabs_write sample_env discovered_ap peer ''180d'' ''2a37'' [0x01] []) = Blocks"
proof -
  let ?w = "silabs_write sample_env discovered_ap peer ''180d'' ''2a37'' [0x01] completed"
  let ?resp = "\<lparr>wr_address = peer, wr_service_uuid = ''180d'', wr_char_uuid = ''2a37'',
              wr_value = Some [0x01], wr_success = True\<rparr>"
  have h1: "fst ?w = Returns ?resp" by code_simp
  then have h2: "?w = (Returns ?resp, fst (snd ?w), snd (snd ?w))"
    by (metis prod.collapse)
  have h3: "get_connection discovered_ap peer = Some peer_entry" by code_simp
  have h4: "handle peer_entry = 1" by (simp add: peer_entry_def)
  have h5: "\<forall>res. bt_evt_gatt_procedure_completed (handle peer_entry) res \<notin> set []" by simp
  from silabs_write_needs_completion_event [where env = sample_env and ap = discovered_ap
      and a = peer and s = "''180d''" and c = "''2a37''" and v = "[0x01]" and evs = completed
      and resp = ?resp and ap' = "fst (snd ?w)" and rest = "snd (snd ?w)"] h2
  obtain cr consumed res where "get_connection discovered_ap peer = Some cr"
    "completed = consumed @ snd (snd ?w)"
    "bt_evt_gatt_procedure_completed (handle cr) res \<in> set consumed" by blast
  with h3 h4 have A: "\<exists>consumed res. completed = consumed @ snd (snd ?w) \<and>
      bt_evt_gatt_procedure_completed 1 res \<in> set consumed" by auto
  from silabs_write_needs_completion_event [where env = sample_env and ap = discovered_ap
      and a = peer and s = "''180d''" and c = "''2a37''" and v = "[0x01]" and evs = "[]"
      and resp = ?resp and cr = peer_entry] h3 h5
  have B: "fst (silabs_write sample_env discovered_ap peer ''180d'' ''2a37'' [0x01] []) \<noteq>
     Returns ?resp" by blast
  have C: "fst (silabs_write sample_env discovered_ap peer ''180d'' ''2a37'' [0x01] []) = Blocks"
    by code_simp
  show ?thesis by (intro conjI h1 A B C)
qed

text \<open>
  Claim C7 says that \<^verbatim>\<open>write\<close> reports \<open>success = True\<close> only when the backend has
  acknowledged the completion of the write procedure. Evaluated on the discovered access
  point: a write of \<^verbatim>\<open>2a37\<close> whose procedure the backend completes with the failure
  result \<^verbatim>\<open>0x185\<close> returns \<open>success = True\<close> (one command issued, the response built
  from the constant \<^verbatim>\<open>True\<close>); and after a read that returned on its value event, the
  completion event that is still due for that read releases the next write, which
  returns \<open>success = True\<close> before any event of the write itself. Only the read and the
  write operation are pending in these runs; the second run takes the read-response
  opcode from \<open>sample_env\<close>.
\<close>

theorem C7_failed_write_reported_success:
  "fst (silabs_write env discovered_ap peer ''180d'' ''2a37'' [0x01] failed_completion) =
     Returns \<lparr>wr_address = peer, wr_service_uuid = ''180d'', wr_char_uuid = ''2a37'',
              wr_value = Some [0x01], wr_success = True\<rparr> \<and>
   issued (fst (snd (silabs_write env discovered_ap peer ''180d'' ''2a37'' [0x01] failed_completion))) =
     [write_characteristic_value 1 11 [0x01]] \<and>
   fst (silabs_read sample_env discovered_ap peer ''180d'' ''2a37'' answered) =
     Returns \<lparr>rr_address = ''1'', rr_service_uuid = [], rr_char_uuid = [], rr_value = Some [0x48]\<rparr> \<and>
   fst (silabs_write sample_env after_read peer ''180d'' ''2a37'' [0x01] completed) =
     Returns \<lparr>wr_address = peer, wr_service_uuid = ''180d'', wr_char_uuid = ''2a37'',
              wr_value = Some [0x01], wr_success = True\<rparr>"
  by code_simp

lemma silabs_read_Returns:
  assumes "silabs_read env ap a s c evs = (Returns resp, ap', rest)"
  shows "\<exists>cr svc chr v. get_connection ap a = Some cr \<and> dict_get (services cr) s = Some svc \<and>
           dict_get (characteristics svc) c = Some chr \<and>
           resp = \<lparr>rr_address = str_int (handle cr), rr_service_uuid = [], rr_char_uuid = [],
                   rr_value = Some v\<rparr> \<and>
           bt_evt_gatt_characteristic_value (handle cr) (char_handle chr)
             (ATT_OPCODE_READ_RESPONSE env) v \<in> set evs"
proof -
  from assms obtain cr svc chr where cr: "dict_get (conn_reqs ap) a = Some cr"
    and svc: "dict_get (services cr) s = Some svc"
    and chr: "dict_get (characteristics svc) c = Some chr"
    by (auto simp: silabs_read_def split: option.splits)
  define r where "r = length (objects ap)"
  define ap2 where "ap2 = issue (read_characteristic_value (handle cr) (char_handle chr))
     (snd (append_operation (Read (ReadOperation (handle cr) (char_handle chr))) ap))"
  from assms cr svc chr have w: "wait env r ap2 evs = Woken ap' rest"
    and resp: "resp = read_response_at ap' r"
    by (auto simp: silabs_read_def Let_def append_operation_def r_def ap2_def
        split: wait_result.splits)
  let ?Q = "read_answered (set evs) (ATT_OPCODE_READ_RESPONSE env) (handle cr) (char_handle chr)"
  have q0: "?Q (objects ap2 ! r)"
    by (simp add: ap2_def r_def issue_def append_operation_def read_answered_def
        ReadOperation_def)
  from wait_Woken_keeps [of "set evs" ?Q env, OF read_answered_step read_answered_pulses q0 subset_refl w]
  have "?Q (objects ap' ! r)" and "op_is_set (objects ap' ! r)" by auto
  then obtain x v where "objects ap' ! r = Read x" "ro_flag x" "ro_handle x = handle cr"
    "ro_value x = Some v"
    "bt_evt_gatt_characteristic_value (handle cr) (char_handle chr)
       (ATT_OPCODE_READ_RESPONSE env) v \<in> set evs"
    by (cases "objects ap' ! r") (auto simp: read_answered_def op_is_set_def split: option.splits)
  with resp cr svc chr show ?thesis
    by (auto simp: get_connection_def read_response_at_def ReadOperation_response_def)
qed

lemma read_flag_stays_clear:
  "\<not> ro_flag op \<Longrightarrow>
   \<forall>v. bt_evt_gatt_characteristic_value (ro_handle op) (ro_char_handle op)
         (ATT_OPCODE_READ_RESPONSE env) v \<notin> set es \<Longrightarrow>
   \<not> ro_flag (foldl (ReadOperation_handle_event env) op es) \<and>
   ro_handle (foldl (ReadOperation_handle_event env) op es) = ro_handle op"
proof (induction es arbitrary: op)
  case Nil
  then show ?case by simp
next
  case (Cons e es)
  have "\<not> ro_flag (ReadOperation_handle_event env op e) \<and>
        ro_handle (ReadOperation_handle_event env op e) = ro_handle op \<and>
        ro_char_handle (ReadOperation_handle_event env op e) = ro_char_handle op"
    using Cons.prems by (cases e) auto
  with Cons.IH [of "ReadOperation_handle_event env op e"] Cons.prems(2) show ?case by simp
qed

text \<open>
  Claim C10. On the radio-chip backend every read that returns yields a response whose
  address field is the connection handle rendered in decimal (\<^verbatim>\<open>str(self.handle)\<close>), not
  the address of the call, whose service and characteristic fields are empty strings, and
  whose value is the byte string of a read-response event received for that connection
  and characteristic. The response of a read operation that has received no read-response
  event for its connection and characteristic carries the value \<^verbatim>\<open>None\<close>.
\<close>

theorem C10_silabs_read_response:
  "(silabs_read env ap a s c evs = (Returns resp, ap', rest) \<longrightarrow>
      (\<exists>cr svc chr v. get_connection ap a = Some cr \<and> dict_get (services cr) s = Some svc \<and>
         dict_get (characteristics svc) c = Some chr \<and>
         resp = \<lparr>rr_address = str_int (handle cr), rr_service_uuid = [], rr_char_uuid = [],
                 rr_value = Some v\<rparr> \<and>
         bt_evt_gatt_characteristic_value (handle cr) (char_handle chr)
           (ATT_OPCODE_READ_RESPONSE env) v \<in> set evs)) \<and>
   ((\<forall>v. bt_evt_gatt_characteristic_value h ch (ATT_OPCODE_READ_RESPONSE env) v \<notin> set es) \<longrightarrow>
      ReadOperation_response (foldl (ReadOperation_handle_event env) (ReadOperation h ch) es) =
        \<lparr>rr_address = str_int h, rr_service_uuid = [], rr_char_uuid = [], rr_value = None\<rparr>)"
proof (intro conjI impI)
  assume "silabs_read env ap a s c evs = (Returns resp, ap', rest)"
  from silabs_read_Returns [OF this]
  show "\<exists>cr svc chr v. get_connection ap a = Some cr \<and> dict_get (services cr) s = Some svc \<and>
         dict_get (characteristics svc) c = Some chr \<and>
         resp = \<lparr>rr_address = str_int (handle cr), rr_service_uuid = [], rr_char_uuid = [],
                 rr_value = Some v\<rparr> \<and>
         bt_evt_gatt_characteristic_value (handle cr) (char_handle chr)
           (ATT_OPCODE_READ_RESPONSE env) v \<in> set evs" .
next
  assume "\<forall>v. bt_evt_gatt_characteristic_value h ch (ATT_OPCODE_READ_RESPONSE env) v \<notin> set es"
  with read_flag_stays_clear [of "ReadOperation h ch" env es]
  show "ReadOperation_response (foldl (ReadOperation_handle_event env) (ReadOperation h ch) es) =
        \<lparr>rr_address = str_int h, rr_service_uuid = [], rr_char_uuid = [], rr_value = None\<rparr>"
    by (simp add: ReadOperation_response_def ReadOperation_def)
qed

text \<open>
  Claim C10 at concrete inputs: the read of \<^verbatim>\<open>2a37\<close> on the peer connected with handle 1
  answers with the address "1".
\<close>

theorem C10_read_witness:
  "fst (silabs_read sample_env discovered_ap peer ''180d'' ''2a37'' answered) =
     Returns \<lparr>rr_address = ''1'', rr_service_uuid = [], rr_char_uuid = [], rr_value = Some [0x48]\<rparr> \<and>
   (\<exists>cr. get_connection discovered_ap peer = Some cr \<and> str_int (handle cr) = ''1'') \<and>
   ''1'' \<noteq> peer \<and>
   ReadOperation_response
     (foldl (ReadOperation_handle_event sample_env) (ReadOperation 1 11) completed) =
     \<lparr>rr_address = ''1'', rr_service_uuid = [], rr_char_uuid = [], rr_value = None\<rparr>"
proof -
  let ?w = "silabs_read sample_env discovered_ap peer ''180d'' ''2a37'' answered"
  let ?resp = "\<lparr>rr_address = ''1'', rr_service_uuid = [], rr_char_uuid = [], rr_value = Some [0x48]\<rparr>"
  have h1: "fst ?w = Returns ?resp" by code_simp
  then have h2: "?w = (Returns ?resp, fst (snd ?w), snd (snd ?w))"
    by (metis prod.collapse)
  have h3: "\<forall>v. bt_evt_gatt_characteristic_value 1 11 (ATT_OPCODE_READ_RESPONSE sample_env) v
      \<notin> set completed"
    by (simp add: completed_def)
  have s: "str_int 1 = ''1''" by code_simp
  note T = C10_silabs_read_response [where env = sample_env and ap = discovered_ap and a = peer
      and s = "''180d''" and c = "''2a37''" and evs = answered and resp = ?resp
      and ap' = "fst (snd ?w)" and rest = "snd (snd ?w)" and h = 1 and ch = 11 and es = completed]
  from T h2 obtain cr where "get_connection discovered_ap peer = Some cr"
    and "?resp = \<lparr>rr_address = str_int (handle cr), rr_service_uuid = [], rr_char_uuid = [],
                 rr_value = rr_value ?resp\<rparr>" by auto
  then have A: "\<exists>cr. get_connection discovered_ap peer = Some cr \<and> str_int (handle cr) = ''1''"
    by auto
  from T h3 have "ReadOperation_response
     (foldl (ReadOperation_handle_event sample_env) (ReadOperation 1 11) completed) =
     \<lparr>rr_address = str_int 1, rr_service_uuid = [], rr_char_uuid = [], rr_value = None\<rparr>"
    by blast
  then have B: "ReadOperation_response
     (foldl (ReadOperation_handle_event sample_env) (ReadOperation 1 11) completed) =
     \<lparr>rr_address = ''1'', rr_service_uuid = [], rr_char_uuid = [], rr_value = None\<rparr>"
    by (simp only: s)
  have C: "''1'' \<noteq> peer" by (simp add: peer_def)
  show ?thesis by (intro conjI h1 A C B)
qed

section \<open>Subscriptions\<close>












end
